theory Spec2Isabelle
  imports Complex_Main "HOL-Library.Word"
begin

section \<open>Strings of the platform\<close>

text \<open>
  A JavaScript string is a finite sequence of 16-bit code units. String literals of the
  source are written with \<open>js\<close>, which maps every character of an ASCII literal to its
  code unit.
\<close>

type_synonym jsstring = "16 word list"

definition js :: "string \<Rightarrow> jsstring" where
  "js s = map (\<lambda>c. of_nat (of_char c)) s"

text \<open>\<open>Array.prototype.join\<close> on an array of strings.\<close>

fun Array_join :: "jsstring \<Rightarrow> jsstring list \<Rightarrow> jsstring" where
  "Array_join sep [] = []"
| "Array_join sep [x] = x"
| "Array_join sep (x # y # ys) = x @ sep @ Array_join sep (y # ys)"

text \<open>
  \<open>s.split(sep)\<close> is read through \<open>split_first\<close>: the text before the first occurrence of
  a non-empty separator and the text after it, or \<open>None\<close> when \<open>s.includes(sep)\<close> is false.
\<close>

fun split_first :: "jsstring \<Rightarrow> jsstring \<Rightarrow> (jsstring \<times> jsstring) option" where
  "split_first sep [] = None"
| "split_first sep (c # cs) =
     (if take (length sep) (c # cs) = sep then Some ([], drop (length sep) (c # cs))
      else (case split_first sep cs of
              None \<Rightarrow> None
            | Some (before, after) \<Rightarrow> Some (c # before, after)))"

section \<open>Data model (types.ts)\<close>

record Location =
  lat :: real
  lng :: real

record StationData =
  station_id :: jsstring
  name :: jsstring
  address :: jsstring
  location :: Location
  description :: jsstring
  images :: "jsstring list"
  timestamp :: int

datatype AppView = MAP | LIST | SETTINGS

record AppConfig =
  googleMapsApiKey :: jsstring
  googleSheetScriptUrl :: jsstring

section \<open>JSON text (the platform's \<open>JSON.stringify\<close> and \<open>JSON.parse\<close>)\<close>

subsection \<open>Writing\<close>

definition hex_digit :: "nat \<Rightarrow> 16 word" where
  "hex_digit n = (if n < 10 then of_nat (48 + n) else of_nat (87 + n))"

definition UnicodeEscape :: "16 word \<Rightarrow> jsstring" where
  "UnicodeEscape c =
     [0x5C, 0x75, hex_digit (unat c div 4096), hex_digit (unat c div 256 mod 16),
      hex_digit (unat c div 16 mod 16), hex_digit (unat c mod 16)]"

definition is_surrogate :: "16 word \<Rightarrow> bool" where
  "is_surrogate c \<longleftrightarrow> 0xD800 \<le> c \<and> c \<le> 0xDFFF"

definition is_leading_surrogate :: "16 word \<Rightarrow> bool" where
  "is_leading_surrogate c \<longleftrightarrow> 0xD800 \<le> c \<and> c \<le> 0xDBFF"

definition is_trailing_surrogate :: "16 word \<Rightarrow> bool" where
  "is_trailing_surrogate c \<longleftrightarrow> 0xDC00 \<le> c \<and> c \<le> 0xDFFF"

definition escape_unit :: "16 word \<Rightarrow> jsstring" where
  "escape_unit c =
     (if c = 0x08 then [0x5C, 0x62]
      else if c = 0x09 then [0x5C, 0x74]
      else if c = 0x0A then [0x5C, 0x6E]
      else if c = 0x0C then [0x5C, 0x66]
      else if c = 0x0D then [0x5C, 0x72]
      else if c = 0x22 then [0x5C, 0x22]
      else if c = 0x5C then [0x5C, 0x5C]
      else if c < 0x20 \<or> is_surrogate c then UnicodeEscape c
      else [c])"

text \<open>
  The body of \<open>QuoteJSONString\<close>: a well-formed surrogate pair is copied, a lone
  surrogate and a control character are escaped.
\<close>

fun quote_units :: "jsstring \<Rightarrow> jsstring" where
  "quote_units [] = []"
| "quote_units [c] = escape_unit c"
| "quote_units (c # d # cs) =
     (if is_leading_surrogate c \<and> is_trailing_surrogate d then c # d # quote_units cs
      else escape_unit c @ quote_units (d # cs))"

definition QuoteJSONString :: "jsstring \<Rightarrow> jsstring" where
  "QuoteJSONString s = 0x22 # quote_units s @ [0x22]"

definition JSON_stringify_config :: "AppConfig \<Rightarrow> jsstring" where
  \<open>JSON_stringify_config c =
     js ''{"googleMapsApiKey":'' @ QuoteJSONString (googleMapsApiKey c) @
     js '',"googleSheetScriptUrl":'' @ QuoteJSONString (googleSheetScriptUrl c) @ js ''}''\<close>

text \<open>
  Numbers are written by the platform's \<open>Number::toString\<close>, a parameter \<open>num\<close> of every
  function that prints one.
\<close>

definition JSON_stringify_station :: "(real \<Rightarrow> jsstring) \<Rightarrow> StationData \<Rightarrow> jsstring" where
  \<open>JSON_stringify_station num s =
     js ''{"id":'' @ QuoteJSONString (station_id s) @
     js '',"name":'' @ QuoteJSONString (name s) @
     js '',"address":'' @ QuoteJSONString (address s) @
     js '',"description":'' @ QuoteJSONString (description s) @
     js '',"location":{"lat":'' @ num (lat (location s)) @
     js '',"lng":'' @ num (lng (location s)) @
     js ''},"images":['' @ Array_join (js '','') (map QuoteJSONString (images s)) @
     js ''],"timestamp":'' @ num (of_int (timestamp s)) @ js ''}''\<close>

definition JSON_stringify_stations :: "(real \<Rightarrow> jsstring) \<Rightarrow> StationData list \<Rightarrow> jsstring" where
  "JSON_stringify_stations num xs =
     js ''['' @ Array_join (js '','') (map (JSON_stringify_station num) xs) @ js '']''"

subsection \<open>Reading\<close>

datatype json =
    JNull
  | JBool bool
  | JNumber jsstring
  | JString jsstring
  | JArray "json list"
  | JObject "(jsstring \<times> json) list"

definition is_ws :: "16 word \<Rightarrow> bool" where
  "is_ws c \<longleftrightarrow> c = 0x20 \<or> c = 0x09 \<or> c = 0x0A \<or> c = 0x0D"

definition skip_ws :: "jsstring \<Rightarrow> jsstring" where
  "skip_ws cs = dropWhile is_ws cs"

definition hex_value :: "16 word \<Rightarrow> nat option" where
  "hex_value c =
     (if 0x30 \<le> c \<and> c \<le> 0x39 then Some (unat c - 48)
      else if 0x61 \<le> c \<and> c \<le> 0x66 then Some (unat c - 87)
      else if 0x41 \<le> c \<and> c \<le> 0x46 then Some (unat c - 55)
      else None)"

definition hex4 :: "16 word \<Rightarrow> 16 word \<Rightarrow> 16 word \<Rightarrow> 16 word \<Rightarrow> 16 word option" where
  "hex4 a b c d =
     (case (hex_value a, hex_value b, hex_value c, hex_value d) of
        (Some x, Some y, Some z, Some w) \<Rightarrow> Some (of_nat (((x * 16 + y) * 16 + z) * 16 + w))
      | _ \<Rightarrow> None)"

definition single_escape :: "16 word \<Rightarrow> 16 word option" where
  "single_escape e =
     (if e = 0x22 then Some 0x22
      else if e = 0x2F then Some 0x2F
      else if e = 0x5C then Some 0x5C
      else if e = 0x62 then Some 0x08
      else if e = 0x66 then Some 0x0C
      else if e = 0x6E then Some 0x0A
      else if e = 0x72 then Some 0x0D
      else if e = 0x74 then Some 0x09
      else None)"

text \<open>
  The characters of a JSON string after its opening quote: the decoded string and the
  text after the closing quote.
\<close>

fun JSON_string_chars :: "jsstring \<Rightarrow> (jsstring \<times> jsstring) option" where
  "JSON_string_chars [] = None"
| "JSON_string_chars (c # cs) =
     (if c = 0x22 then Some ([], cs)
      else if c = 0x5C then
        (case cs of
           [] \<Rightarrow> None
         | e # r \<Rightarrow>
             if e = 0x75 then
               (case r of
                  h1 # h2 # h3 # h4 # r' \<Rightarrow>
                    (case hex4 h1 h2 h3 h4 of
                       None \<Rightarrow> None
                     | Some u \<Rightarrow>
                         (case JSON_string_chars r' of
                            None \<Rightarrow> None
                          | Some (s, rest) \<Rightarrow> Some (u # s, rest)))
                | _ \<Rightarrow> None)
             else
               (case single_escape e of
                  None \<Rightarrow> None
                | Some u \<Rightarrow>
                    (case JSON_string_chars r of
                       None \<Rightarrow> None
                     | Some (s, rest) \<Rightarrow> Some (u # s, rest))))
      else if c < 0x20 then None
      else
        (case JSON_string_chars cs of
           None \<Rightarrow> None
         | Some (s, rest) \<Rightarrow> Some (c # s, rest)))"

definition is_digit :: "16 word \<Rightarrow> bool" where
  "is_digit c \<longleftrightarrow> 0x30 \<le> c \<and> c \<le> 0x39"

definition scan_digits :: "jsstring \<Rightarrow> (jsstring \<times> jsstring) option" where
  "scan_digits cs =
     (if takeWhile is_digit cs = [] then None
      else Some (takeWhile is_digit cs, dropWhile is_digit cs))"

definition scan_int :: "jsstring \<Rightarrow> (jsstring \<times> jsstring) option" where
  "scan_int cs =
     (case cs of
        [] \<Rightarrow> None
      | d # r \<Rightarrow> if d = 0x30 then Some ([d], r) else scan_digits cs)"

definition scan_frac :: "jsstring \<Rightarrow> (jsstring \<times> jsstring) option" where
  "scan_frac cs =
     (case cs of
        [] \<Rightarrow> Some ([], [])
      | c # r \<Rightarrow>
          if c = 0x2E then
            (case scan_digits r of None \<Rightarrow> None | Some (ds, rest) \<Rightarrow> Some (c # ds, rest))
          else Some ([], cs))"

definition scan_exp :: "jsstring \<Rightarrow> (jsstring \<times> jsstring) option" where
  "scan_exp cs =
     (case cs of
        [] \<Rightarrow> Some ([], [])
      | c # r \<Rightarrow>
          if c = 0x65 \<or> c = 0x45 then
            (case r of
               [] \<Rightarrow> None
             | s # r' \<Rightarrow>
                 if s = 0x2B \<or> s = 0x2D then
                   (case scan_digits r' of
                      None \<Rightarrow> None
                    | Some (ds, rest) \<Rightarrow> Some (c # s # ds, rest))
                 else
                   (case scan_digits r of
                      None \<Rightarrow> None
                    | Some (ds, rest) \<Rightarrow> Some (c # ds, rest)))
          else Some ([], cs))"

definition scan_number :: "jsstring \<Rightarrow> (jsstring \<times> jsstring) option" where
  "scan_number cs =
     (let (sign, r0) = (case cs of
                          [] \<Rightarrow> ([], [])
                        | c # r \<Rightarrow> if c = 0x2D then ([c], r) else ([], cs))
      in case scan_int r0 of
           None \<Rightarrow> None
         | Some (i, r1) \<Rightarrow>
             (case scan_frac r1 of
                None \<Rightarrow> None
              | Some (f, r2) \<Rightarrow>
                  (case scan_exp r2 of
                     None \<Rightarrow> None
                   | Some (e, r3) \<Rightarrow> Some (sign @ i @ f @ e, r3))))"

text \<open>
  The value grammar. The first argument bounds the number of nested calls;
  \<open>JSON_parse\<close> gives it the length of the text.
\<close>

fun parse_value :: "nat \<Rightarrow> jsstring \<Rightarrow> (json \<times> jsstring) option"
  and parse_members :: "nat \<Rightarrow> jsstring \<Rightarrow> ((jsstring \<times> json) list \<times> jsstring) option"
  and parse_elements :: "nat \<Rightarrow> jsstring \<Rightarrow> (json list \<times> jsstring) option"
where
  "parse_value 0 cs = None"
| "parse_value (Suc n) cs =
     (case skip_ws cs of
        [] \<Rightarrow> None
      | c # r \<Rightarrow>
          if c = 0x22 then
            (case JSON_string_chars r of
               None \<Rightarrow> None
             | Some (s, rest) \<Rightarrow> Some (JString s, rest))
          else if c = 0x7B then
            (case skip_ws r of
               [] \<Rightarrow> None
             | d # r' \<Rightarrow>
                 if d = 0x7D then Some (JObject [], r')
                 else (case parse_members n (d # r') of
                         None \<Rightarrow> None
                       | Some (ms, rest) \<Rightarrow> Some (JObject ms, rest)))
          else if c = 0x5B then
            (case skip_ws r of
               [] \<Rightarrow> None
             | d # r' \<Rightarrow>
                 if d = 0x5D then Some (JArray [], r')
                 else (case parse_elements n (d # r') of
                         None \<Rightarrow> None
                       | Some (vs, rest) \<Rightarrow> Some (JArray vs, rest)))
          else if take 4 (c # r) = js ''true'' then Some (JBool True, drop 4 (c # r))
          else if take 5 (c # r) = js ''false'' then Some (JBool False, drop 5 (c # r))
          else if take 4 (c # r) = js ''null'' then Some (JNull, drop 4 (c # r))
          else
            (case scan_number (c # r) of
               None \<Rightarrow> None
             | Some (t, rest) \<Rightarrow> Some (JNumber t, rest)))"
| "parse_members 0 cs = None"
| "parse_members (Suc n) cs =
     (case skip_ws cs of
        [] \<Rightarrow> None
      | q # r \<Rightarrow>
          if q \<noteq> 0x22 then None
          else
            (case JSON_string_chars r of
               None \<Rightarrow> None
             | Some (k, r1) \<Rightarrow>
                 (case skip_ws r1 of
                    [] \<Rightarrow> None
                  | colon # r2 \<Rightarrow>
                      if colon \<noteq> 0x3A then None
                      else
                        (case parse_value n r2 of
                           None \<Rightarrow> None
                         | Some (v, r3) \<Rightarrow>
                             (case skip_ws r3 of
                                [] \<Rightarrow> None
                              | e # r4 \<Rightarrow>
                                  if e = 0x7D then Some ([(k, v)], r4)
                                  else if e = 0x2C then
                                    (case parse_members n r4 of
                                       None \<Rightarrow> None
                                     | Some (ms, rest) \<Rightarrow> Some ((k, v) # ms, rest))
                                  else None)))))"
| "parse_elements 0 cs = None"
| "parse_elements (Suc n) cs =
     (case parse_value n cs of
        None \<Rightarrow> None
      | Some (v, r1) \<Rightarrow>
          (case skip_ws r1 of
             [] \<Rightarrow> None
           | e # r2 \<Rightarrow>
               if e = 0x5D then Some ([v], r2)
               else if e = 0x2C then
                 (case parse_elements n r2 of
                    None \<Rightarrow> None
                  | Some (vs, rest) \<Rightarrow> Some (v # vs, rest))
               else None))"

text \<open>\<open>JSON.parse\<close>: \<open>None\<close> is the \<open>SyntaxError\<close> it throws.\<close>

definition JSON_parse :: "jsstring \<Rightarrow> json option" where
  "JSON_parse text =
     (case parse_value (Suc (length text)) text of
        None \<Rightarrow> None
      | Some (v, rest) \<Rightarrow> if skip_ws rest = [] then Some v else None)"

text \<open>Reading a member of a parsed object: of duplicate names the last one counts.\<close>

definition json_member :: "jsstring \<Rightarrow> (jsstring \<times> json) list \<Rightarrow> json option" where
  "json_member k ms = map_of (rev ms) k"

text \<open>
  The application uses the parsed value as an \<open>AppConfig\<close> without a check. The model
  reads its two members; a value of another shape is outside the data model.
\<close>

definition as_AppConfig :: "json \<Rightarrow> AppConfig option" where
  "as_AppConfig v =
     (case v of
        JObject ms \<Rightarrow>
          (case (json_member (js ''googleMapsApiKey'') ms,
                 json_member (js ''googleSheetScriptUrl'') ms) of
             (Some (JString k), Some (JString u)) \<Rightarrow>
               Some \<lparr>googleMapsApiKey = k, googleSheetScriptUrl = u\<rparr>
           | _ \<Rightarrow> None)
      | _ \<Rightarrow> None)"

section \<open>Host application (App.tsx)\<close>

definition DEFAULT_CENTER :: Location where
  "DEFAULT_CENTER = \<lparr>lat = 21.0285, lng = 105.8542\<rparr>"

definition STORAGE_KEY_CONFIG :: jsstring where
  "STORAGE_KEY_CONFIG = js ''geo_station_config''"

definition STORAGE_KEY_DATA :: jsstring where
  "STORAGE_KEY_DATA = js ''geo_station_data''"

text \<open>
  The component's state variables together with the browser's \<open>localStorage\<close>, a map from
  keys to string values.
\<close>

record AppState =
  config :: AppConfig
  stations :: "StationData list"
  currentView :: AppView
  mapCenter :: Location
  zoom :: int
  selectedLocation :: "Location option"
  isSidebarOpen :: bool
  localStorage :: "jsstring \<rightharpoonup> jsstring"

definition initial_state :: "(jsstring \<rightharpoonup> jsstring) \<Rightarrow> AppState" where
  "initial_state storage =
     \<lparr>config = \<lparr>googleMapsApiKey = [], googleSheetScriptUrl = []\<rparr>,
      stations = [],
      currentView = MAP,
      mapCenter = DEFAULT_CENTER,
      zoom = 12,
      selectedLocation = None,
      isSidebarOpen = True,
      localStorage = storage\<rparr>"

datatype load_error = SyntaxError | NotAnAppConfig | NotStationData

text \<open>
  The configuration half of the load effect: \<open>getItem\<close>, the truthiness test (\<open>null\<close> and
  the empty string are skipped), \<open>JSON.parse\<close> and \<open>setConfig\<close>.
\<close>

definition load_config :: "AppState \<Rightarrow> load_error + AppState" where
  "load_config st =
     (case localStorage st STORAGE_KEY_CONFIG of
        None \<Rightarrow> Inr st
      | Some savedConfig \<Rightarrow>
          if savedConfig = [] then Inr st
          else
            (case JSON_parse savedConfig of
               None \<Rightarrow> Inl SyntaxError
             | Some v \<Rightarrow>
                 (case as_AppConfig v of
                    None \<Rightarrow> Inl NotAnAppConfig
                  | Some c \<Rightarrow> Inr (st\<lparr>config := c\<rparr>))))"

text \<open>
  The whole load effect: the configuration half, then the same for the stations under
  the other key. An exception of \<open>JSON.parse\<close> leaves the effect. \<open>as_stations\<close> reads a
  parsed value as the list of stations, numbers included; it is the platform's and a
  parameter here.
\<close>

definition load_effect ::
  "(json \<Rightarrow> StationData list option) \<Rightarrow> AppState \<Rightarrow> load_error + AppState" where
  "load_effect as_stations st =
     (case load_config st of
        Inl e \<Rightarrow> Inl e
      | Inr st1 \<Rightarrow>
          (case localStorage st1 STORAGE_KEY_DATA of
             None \<Rightarrow> Inr st1
           | Some savedData \<Rightarrow>
               if savedData = [] then Inr st1
               else
                 (case JSON_parse savedData of
                    None \<Rightarrow> Inl SyntaxError
                  | Some v \<Rightarrow>
                      (case as_stations v of
                         None \<Rightarrow> Inl NotStationData
                       | Some xs \<Rightarrow> Inr (st1\<lparr>stations := xs\<rparr>)))))"

definition updateConfig :: "AppConfig \<Rightarrow> AppState \<Rightarrow> AppState" where
  "updateConfig newConfig st =
     st\<lparr>config := newConfig,
        localStorage := (localStorage st)(STORAGE_KEY_CONFIG \<mapsto> JSON_stringify_config newConfig)\<rparr>"

definition addStation :: "(real \<Rightarrow> jsstring) \<Rightarrow> StationData \<Rightarrow> AppState \<Rightarrow> AppState" where
  "addStation num station st =
     (let updated = station # stations st
      in st\<lparr>stations := updated,
            localStorage := (localStorage st)(STORAGE_KEY_DATA \<mapsto> JSON_stringify_stations num updated),
            selectedLocation := None,
            currentView := LIST\<rparr>)"

text \<open>
  \<open>addStation\<close> is a closure made at every render: the \<open>stations\<close> it reads is the list of
  the render that made it, whatever the list is when it is called. Above, it is called
  in the state of its own render. \<open>addStation_captured\<close> is the same body called in a
  later state \<open>st\<close>, with \<open>captured\<close> the list of the render that made the closure; the
  setters and \<open>localStorage.setItem\<close> act on the state of the call.
\<close>

definition addStation_captured ::
  "(real \<Rightarrow> jsstring) \<Rightarrow> StationData list \<Rightarrow> StationData \<Rightarrow> AppState \<Rightarrow> AppState" where
  "addStation_captured num captured station st =
     (let updated = station # captured
      in st\<lparr>stations := updated,
            localStorage := (localStorage st)(STORAGE_KEY_DATA \<mapsto> JSON_stringify_stations num updated),
            selectedLocation := None,
            currentView := LIST\<rparr>)"

definition deleteStation :: "(real \<Rightarrow> jsstring) \<Rightarrow> jsstring \<Rightarrow> AppState \<Rightarrow> AppState" where
  "deleteStation num i st =
     (let updated = filter (\<lambda>s. station_id s \<noteq> i) (stations st)
      in st\<lparr>stations := updated,
            localStorage := (localStorage st)(STORAGE_KEY_DATA \<mapsto> JSON_stringify_stations num updated)\<rparr>)"

definition handleMapClick :: "Location \<Rightarrow> AppState \<Rightarrow> AppState" where
  "handleMapClick loc st =
     st\<lparr>selectedLocation := Some loc,
        isSidebarOpen := (if \<not> isSidebarOpen st then True else isSidebarOpen st),
        currentView := MAP\<rparr>"

definition handleMarkerClick :: "StationData \<Rightarrow> AppState \<Rightarrow> AppState" where
  "handleMarkerClick station st =
     st\<lparr>mapCenter := location station, zoom := 16, currentView := LIST, isSidebarOpen := True\<rparr>"

text \<open>What the browser's geolocation answers: no support, a position, or an error.\<close>

datatype geolocation = NoGeolocation | Position Location | PositionError

definition handleLocateMe :: "geolocation \<Rightarrow> AppState \<Rightarrow> AppState \<times> jsstring option" where
  "handleLocateMe g st =
     (case g of
        NoGeolocation \<Rightarrow> (st, None)
      | Position loc \<Rightarrow>
          (st\<lparr>mapCenter := loc, zoom := 15, selectedLocation := Some loc\<rparr>, None)
      | PositionError \<Rightarrow> (st, Some (js ''Could not access your location.'')))"

text \<open>What the sidebar renders: one of three panels, with the props it is given.\<close>

datatype sidebar =
    SettingsPanel AppConfig
  | StationFormPanel Location jsstring
  | StationListPanel "StationData list"

definition renderSidebar :: "AppState \<Rightarrow> sidebar" where
  "renderSidebar st =
     (if currentView st = SETTINGS then SettingsPanel (config st)
      else
        (case selectedLocation st of
           Some loc \<Rightarrow>
             if currentView st = MAP
             then StationFormPanel loc (googleSheetScriptUrl (config st))
             else StationListPanel (stations st)
         | None \<Rightarrow> StationListPanel (stations st)))"

text \<open>
  The user's actions on the host application and the handlers they run: a click on the
  map, on a marker, on the locate button, on the settings button, saving the settings
  (which also closes the panel), cancelling the form, deleting a station from the list,
  the view-on-map link of a station, the list button, opening and closing the sidebar.
  Submitting the station form is \<open>submit_form\<close> below.
\<close>

datatype app_event =
    MapClicked Location
  | MarkerClicked StationData
  | LocateClicked geolocation
  | SettingsClicked
  | SettingsSaved AppConfig
  | FormCancelled
  | StationDeleted jsstring
  | ViewOnMapClicked StationData
  | ViewListClicked
  | SidebarOpened
  | SidebarClosed

definition app_step :: "(real \<Rightarrow> jsstring) \<Rightarrow> AppState \<Rightarrow> app_event \<Rightarrow> AppState" where
  "app_step num st e =
     (case e of
        MapClicked loc \<Rightarrow> handleMapClick loc st
      | MarkerClicked station \<Rightarrow> handleMarkerClick station st
      | LocateClicked g \<Rightarrow> fst (handleLocateMe g st)
      | SettingsClicked \<Rightarrow> st\<lparr>currentView := SETTINGS\<rparr>
      | SettingsSaved c \<Rightarrow> (updateConfig c st)\<lparr>currentView := MAP\<rparr>
      | FormCancelled \<Rightarrow> st\<lparr>selectedLocation := None\<rparr>
      | StationDeleted i \<Rightarrow> deleteStation num i st
      | ViewOnMapClicked station \<Rightarrow> st\<lparr>mapCenter := location station, zoom := 16\<rparr>
      | ViewListClicked \<Rightarrow> st\<lparr>currentView := LIST\<rparr>
      | SidebarOpened \<Rightarrow> st\<lparr>isSidebarOpen := True\<rparr>
      | SidebarClosed \<Rightarrow> st\<lparr>isSidebarOpen := False\<rparr>)"

section \<open>Outbound calls (geminiService.ts, sheetService.ts)\<close>

text \<open>
  A promise of the platform settles to a value or to a thrown exception. The answer of an
  external service (the \<open>fetch\<close> of the webhook, the captioning request) is an argument of
  the function that awaits it. Calls to the outside and to the console are listed in the
  order they are made.
\<close>

datatype exn = Error jsstring

datatype 'a settled = Fulfilled 'a | Rejected exn

datatype part = InlineData jsstring jsstring | TextPart jsstring

datatype effect =
    FetchPost jsstring "(jsstring \<times> jsstring) list"
  | GenerateContent jsstring "part list"
  | ConsoleError jsstring exn

definition sheet_payload :: "(real \<Rightarrow> jsstring) \<Rightarrow> StationData \<Rightarrow> (jsstring \<times> jsstring) list" where
  "sheet_payload num station =
     [(js ''id'', station_id station),
      (js ''name'', name station),
      (js ''address'', address station),
      (js ''lat'', num (lat (location station))),
      (js ''lng'', num (lng (location station))),
      (js ''description'', description station),
      (js ''imageCount'', num (real (length (images station))))]"

text \<open>The \<open>try\<close> block of \<open>saveToGoogleSheetScript\<close>: the request, awaited.\<close>

definition sheet_try ::
  "(real \<Rightarrow> jsstring) \<Rightarrow> StationData \<Rightarrow> jsstring \<Rightarrow> unit settled \<Rightarrow> bool settled \<times> effect list" where
  "sheet_try num station scriptUrl response =
     (case response of
        Fulfilled _ \<Rightarrow> (Fulfilled True, [FetchPost scriptUrl (sheet_payload num station)])
      | Rejected e \<Rightarrow> (Rejected e, [FetchPost scriptUrl (sheet_payload num station)]))"

definition saveToGoogleSheetScript ::
  "(real \<Rightarrow> jsstring) \<Rightarrow> StationData \<Rightarrow> jsstring \<Rightarrow> unit settled \<Rightarrow> bool settled \<times> effect list" where
  "saveToGoogleSheetScript num station scriptUrl response =
     (if scriptUrl = [] then (Fulfilled False, [])
      else
        (case sheet_try num station scriptUrl response of
           (Rejected e, calls) \<Rightarrow>
             (Fulfilled False, calls @ [ConsoleError (js ''Failed to sync to sheet'') e])
         | (Fulfilled b, calls) \<Rightarrow> (Fulfilled b, calls)))"

definition base64Data :: "jsstring \<Rightarrow> jsstring" where
  "base64Data img =
     (case split_first (js ''base64,'') img of
        None \<Rightarrow> img
      | Some (before, after) \<Rightarrow>
          (case split_first (js ''base64,'') after of
             None \<Rightarrow> after
           | Some (segment, rest) \<Rightarrow> segment))"

definition promptText :: "(real \<Rightarrow> jsstring) \<Rightarrow> Location \<Rightarrow> jsstring" where
  "promptText num loc =
     [0x0A] @ js ''      Analyze these images of a station or facility at coordinates ('' @
     num (lat loc) @ js '', '' @ num (lng loc) @ js '').'' @
     [0x0A] @ js ''      Provide a concise, professional description of the visual condition, visible equipment, '' @
     [0x0A] @ js ''      surrounding environment, and any notable features. '' @
     [0x0A] @ js ''      Keep it under 100 words.'' @
     [0x0A] @ js ''    ''"

text \<open>
  The \<open>try\<close> block of \<open>generateStationDescription\<close>. The answer of the service carries
  \<open>response.text\<close>, a string or \<open>undefined\<close>.
\<close>

definition description_try ::
  "(real \<Rightarrow> jsstring) \<Rightarrow> jsstring list \<Rightarrow> Location \<Rightarrow> jsstring option settled \<Rightarrow>
   jsstring settled \<times> effect list" where
  "description_try num base64Images loc response =
     (if length base64Images = 0
      then (Rejected (Error (js ''No images provided for analysis.'')), [])
      else
        (let parts = map (\<lambda>img. InlineData (js ''image/jpeg'') (base64Data img)) base64Images
                     @ [TextPart (promptText num loc)];
             call = GenerateContent (js ''gemini-3-flash-preview'') parts
         in case response of
              Rejected e \<Rightarrow> (Rejected e, [call])
            | Fulfilled text \<Rightarrow>
                (case text of
                   None \<Rightarrow> (Fulfilled (js ''No description generated.''), [call])
                 | Some t \<Rightarrow>
                     (if t = [] then (Fulfilled (js ''No description generated.''), [call])
                      else (Fulfilled t, [call])))))"

definition generateStationDescription ::
  "(real \<Rightarrow> jsstring) \<Rightarrow> jsstring list \<Rightarrow> Location \<Rightarrow> jsstring option settled \<Rightarrow>
   jsstring settled \<times> effect list" where
  "generateStationDescription num base64Images loc response =
     (case description_try num base64Images loc response of
        (Rejected e, calls) \<Rightarrow>
          (Fulfilled (js ''Could not generate description via AI. Please try again.''),
           calls @ [ConsoleError (js ''Gemini Analysis Error:'') e])
      | (Fulfilled d, calls) \<Rightarrow> (Fulfilled d, calls))"

section \<open>CSV export (sheetService.ts)\<close>

text \<open>\<open>s.replace(/"/g, '""')\<close> between two quotes.\<close>

definition csv_quote :: "jsstring \<Rightarrow> jsstring" where
  "csv_quote s = 0x22 # concat (map (\<lambda>c. if c = 0x22 then [0x22, 0x22] else [c]) s) @ [0x22]"

definition csv_headers :: "jsstring list" where
  "csv_headers = [js ''ID'', js ''Name'', js ''Address'', js ''Latitude'', js ''Longitude'',
                  js ''Description'', js ''Timestamp'']"

text \<open>
  A row, as the array of its fields after \<open>join\<close> has turned each into a string. \<open>toISOString\<close> is
  the platform's method of that name, on the time value of the date.
\<close>

definition csv_row :: "(real \<Rightarrow> jsstring) \<Rightarrow> (int \<Rightarrow> jsstring) \<Rightarrow> StationData \<Rightarrow> jsstring list" where
  "csv_row num toISOString s =
     [station_id s,
      csv_quote (name s),
      csv_quote (address s),
      num (lat (location s)),
      num (lng (location s)),
      csv_quote (description s),
      toISOString (timestamp s)]"

definition csvContent :: "(real \<Rightarrow> jsstring) \<Rightarrow> (int \<Rightarrow> jsstring) \<Rightarrow> StationData list \<Rightarrow> jsstring" where
  "csvContent num toISOString records =
     Array_join [0x0A]
       (Array_join (js '','') csv_headers #
        map (\<lambda>s. Array_join (js '','') (csv_row num toISOString s)) records)"

text \<open>The download: file name and content. \<open>now\<close> is the time of the export.\<close>

definition exportToCSV ::
  "(real \<Rightarrow> jsstring) \<Rightarrow> (int \<Rightarrow> jsstring) \<Rightarrow> int \<Rightarrow> StationData list \<Rightarrow> jsstring \<times> jsstring" where
  "exportToCSV num toISOString now records =
     (js ''stations_export_'' @ take 10 (toISOString now) @ js ''.csv'',
      csvContent num toISOString records)"

section \<open>Station form (StationForm.tsx)\<close>

text \<open>
  The form's state variables, and \<open>loading\<close>: the file readers that \<open>handleImageUpload\<close>
  has started and whose \<open>onloadend\<close> has not fired yet, each written as the data URL it
  will deliver.
\<close>

record FormState =
  form_name :: jsstring
  form_address :: jsstring
  form_description :: jsstring
  form_images :: "jsstring list"
  isAnalyzing :: bool
  isSaving :: bool
  loading :: "jsstring list"

definition empty_form :: FormState where
  "empty_form =
     \<lparr>form_name = [], form_address = [], form_description = [], form_images = [],
      isAnalyzing = False, isSaving = False, loading = []\<rparr>"

text \<open>\<open>files.slice(0, end)\<close>: a negative \<open>end\<close> counts from the end of the array.\<close>

definition Array_slice0 :: "int \<Rightarrow> 'a list \<Rightarrow> 'a list" where
  "Array_slice0 e xs =
     (if e < 0 then take (nat (max (int (length xs) + e) 0)) xs
      else take (nat (min e (int (length xs)))) xs)"

text \<open>
  The change event of the file input. \<open>images.length\<close> is the length at the last render,
  that is the images whose reader has finished; the readers still loading do not count.
\<close>

definition handleImageUpload :: "jsstring list option \<Rightarrow> FormState \<Rightarrow> FormState" where
  "handleImageUpload files f =
     (case files of
        None \<Rightarrow> f
      | Some fs \<Rightarrow>
          (let remainingSlots = 4 - int (length (form_images f));
               filesToProcess = Array_slice0 remainingSlots fs
           in f\<lparr>loading := loading f @ filesToProcess\<rparr>))"

text \<open>\<open>reader.onloadend\<close> of the \<open>k\<close>-th reader still loading: \<open>setImages\<close> appends its result.\<close>

definition onloadend :: "nat \<Rightarrow> FormState \<Rightarrow> FormState" where
  "onloadend k f =
     (if k < length (loading f)
      then f\<lparr>form_images := form_images f @ [loading f ! k],
             loading := take k (loading f) @ drop (Suc k) (loading f)\<rparr>
      else f)"

definition removeImage :: "nat \<Rightarrow> FormState \<Rightarrow> FormState" where
  "removeImage index f =
     f\<lparr>form_images :=
         map fst (filter (\<lambda>(img, i). i \<noteq> index)
                    (zip (form_images f) [0..<length (form_images f)]))\<rparr>"

datatype form_event = ImageUpload "jsstring list option" | LoadEnd nat | RemoveImage nat

definition form_step :: "FormState \<Rightarrow> form_event \<Rightarrow> FormState" where
  "form_step f e =
     (case e of
        ImageUpload files \<Rightarrow> handleImageUpload files f
      | LoadEnd k \<Rightarrow> onloadend k f
      | RemoveImage i \<Rightarrow> removeImage i f)"

text \<open>
  \<open>handleSubmit\<close>, with \<open>onSave\<close> bound to \<open>addStation\<close> as the host application binds it.
  Its arguments from the platform: \<open>uuid\<close> is what \<open>crypto.randomUUID()\<close> returns, \<open>now\<close>
  what \<open>Date.now()\<close> returns, \<open>response\<close> what the webhook request settles to, \<open>during\<close>
  the user's actions on the host application that are handled while the handler waits
  for the webhook call. The result is what the handler's promise settles to, the two
  states after it, and the calls made. An exception out of the awaited call would leave
  the handler before \<open>onSave\<close>.

  The record is built before the call is awaited, from the form's state and props of
  the render in which it was submitted. With a webhook URL the handler waits; the host
  handles \<open>during\<close> in between, and \<open>state_at_resume\<close> is its state when the handler goes
  on. Without a URL nothing is awaited and the handler runs to its end in the state it
  was started in. \<open>onSave\<close> is the \<open>addStation\<close> of the render in which the form was
  submitted, so the list it reads is the one of the state \<open>st\<close> at submission.
\<close>

definition state_at_resume ::
  "(real \<Rightarrow> jsstring) \<Rightarrow> jsstring \<Rightarrow> app_event list \<Rightarrow> AppState \<Rightarrow> AppState" where
  "state_at_resume num scriptUrl during st =
     (if scriptUrl \<noteq> [] then foldl (app_step num) st during else st)"

record submit_result =
  outcome :: "unit settled"
  app_after :: AppState
  form_after :: FormState
  calls_made :: "effect list"

definition newStation :: "jsstring \<Rightarrow> int \<Rightarrow> Location \<Rightarrow> FormState \<Rightarrow> StationData" where
  "newStation uuid now loc f =
     \<lparr>station_id = uuid,
      name = form_name f,
      address = form_address f,
      location = loc,
      description = form_description f,
      images = form_images f,
      timestamp = now\<rparr>"

definition handleSubmit ::
  "(real \<Rightarrow> jsstring) \<Rightarrow> jsstring \<Rightarrow> int \<Rightarrow> unit settled \<Rightarrow> app_event list \<Rightarrow> Location \<Rightarrow>
   jsstring \<Rightarrow> FormState \<Rightarrow> AppState \<Rightarrow> submit_result" where
  "handleSubmit num uuid now response during loc scriptUrl f st =
     (let saving = f\<lparr>isSaving := True\<rparr>;
          station = newStation uuid now loc f;
          (synced, calls) =
            (if scriptUrl \<noteq> [] then saveToGoogleSheetScript num station scriptUrl response
             else (Fulfilled False, []));
          resumed = state_at_resume num scriptUrl during st
      in case synced of
           Rejected e \<Rightarrow>
             \<lparr>outcome = Rejected e, app_after = resumed, form_after = saving, calls_made = calls\<rparr>
         | Fulfilled b \<Rightarrow>
             \<lparr>outcome = Fulfilled (),
              app_after = addStation_captured num (stations st) station resumed,
              form_after = saving\<lparr>isSaving := False\<rparr>, calls_made = calls\<rparr>)"


section \<open>Map component (MapContainer.tsx)\<close>

subsection \<open>State\<close>

text \<open>
  Objects of the two map libraries are named by numbers, handed out in order of
  construction. A marker knows the map it is on (\<open>None\<close> after \<open>setMap(null)\<close>,
  \<open>removeLayer\<close> or the \<open>remove()\<close> of its Leaflet map) and, for a station marker, the
  station its click handler reports.
\<close>

datatype backend = Google | Leaflet

record Marker =
  marker_id :: nat
  marker_map :: "nat option"
  marker_position :: Location
  marker_station :: "StationData option"

text \<open>
  The component's props, state variable and refs, the two globals it tests, the script
  elements it has appended that have not loaded yet, and \<open>live_maps\<close>: the map instances
  constructed on the container on which no destroying call has been made.
\<close>

record MapState =
  apiKey :: jsstring
  googleScriptLoaded :: bool
  window_google_maps :: bool
  window_L :: bool
  mapRef :: bool
  googleMapRef :: "nat option"
  googleMarkersRef :: "Marker list"
  googleTempMarkerRef :: "Marker option"
  leafletMapRef :: "nat option"
  leafletMarkersRef :: "Marker list"
  leafletTempMarkerRef :: "Marker option"
  pending_scripts :: "jsstring list"
  live_maps :: "(backend \<times> nat) list"
  next_object :: nat

definition mounted :: "jsstring \<Rightarrow> bool \<Rightarrow> bool \<Rightarrow> MapState" where
  "mounted key google_there leaflet_there =
     \<lparr>apiKey = key, googleScriptLoaded = False, window_google_maps = google_there,
      window_L = leaflet_there, mapRef = True,
      googleMapRef = None, googleMarkersRef = [], googleTempMarkerRef = None,
      leafletMapRef = None, leafletMarkersRef = [], leafletTempMarkerRef = None,
      pending_scripts = [], live_maps = [], next_object = 0\<rparr>"

subsection \<open>Map lifecycle\<close>

text \<open>
  The statements of the two init effects that write a ref or call a map library, one
  constructor each, in the order of the source.
\<close>

datatype statement =
    LeafletMapRemove
  | LeafletRefNull
  | GoogleMapNew
  | GoogleAddClickListener
  | GoogleRefNull
  | LeafletMapNew
  | LeafletTileLayer nat
  | LeafletOnClick nat
  | LeafletRefSet nat
  | SetGoogleScriptLoaded
  | AppendScript jsstring

text \<open>
  \<open>remove()\<close> destroys the Leaflet map and takes every layer that is on it off it, the
  markers among them.
\<close>

definition off_map :: "nat \<Rightarrow> Marker \<Rightarrow> Marker" where
  "off_map m x = (if marker_map x = Some m then x\<lparr>marker_map := None\<rparr> else x)"

fun exec :: "statement \<Rightarrow> MapState \<Rightarrow> MapState" where
  "exec LeafletMapRemove st =
     (case leafletMapRef st of
        None \<Rightarrow> st
      | Some m \<Rightarrow>
          st\<lparr>live_maps := removeAll (Leaflet, m) (live_maps st),
             leafletMarkersRef := map (off_map m) (leafletMarkersRef st),
             leafletTempMarkerRef := map_option (off_map m) (leafletTempMarkerRef st)\<rparr>)"
| "exec LeafletRefNull st = st\<lparr>leafletMapRef := None\<rparr>"
| "exec GoogleMapNew st =
     st\<lparr>googleMapRef := Some (next_object st),
        live_maps := live_maps st @ [(Google, next_object st)],
        next_object := Suc (next_object st)\<rparr>"
| "exec GoogleAddClickListener st = st"
| "exec GoogleRefNull st = st\<lparr>googleMapRef := None\<rparr>"
| "exec LeafletMapNew st =
     st\<lparr>live_maps := live_maps st @ [(Leaflet, next_object st)],
        next_object := Suc (next_object st)\<rparr>"
| "exec (LeafletTileLayer m) st = st"
| "exec (LeafletOnClick m) st = st"
| "exec (LeafletRefSet m) st = st\<lparr>leafletMapRef := Some m\<rparr>"
| "exec SetGoogleScriptLoaded st = st\<lparr>googleScriptLoaded := True\<rparr>"
| "exec (AppendScript key) st = st\<lparr>pending_scripts := pending_scripts st @ [key]\<rparr>"

definition loadGoogleScript :: "MapState \<Rightarrow> statement list" where
  "loadGoogleScript st =
     (if apiKey st = [] then []
      else if window_google_maps st then [SetGoogleScriptLoaded]
      else [AppendScript (apiKey st)])"

definition initGoogleMap :: "MapState \<Rightarrow> statement list" where
  "initGoogleMap st =
     (if apiKey st \<noteq> [] \<and> googleScriptLoaded st \<and> mapRef st \<and> googleMapRef st = None
      then (if leafletMapRef st \<noteq> None then [LeafletMapRemove, LeafletRefNull] else [])
           @ [GoogleMapNew, GoogleAddClickListener]
      else [])"

definition initLeafletMap :: "MapState \<Rightarrow> statement list" where
  "initLeafletMap st =
     (if apiKey st = [] \<and> mapRef st \<and> leafletMapRef st = None \<and> window_L st
      then (if googleMapRef st \<noteq> None then [GoogleRefNull] else [])
           @ [LeafletMapNew, LeafletTileLayer (next_object st), LeafletOnClick (next_object st),
              LeafletRefSet (next_object st)]
      else [])"

text \<open>The statements of an effect are executed one after the other.\<close>

fun run :: "statement list \<Rightarrow> MapState \<Rightarrow> MapState" where
  "run [] st = st"
| "run (x # xs) st = run xs (exec x st)"

text \<open>Every single transition made on the way: the state before and the state after.\<close>

fun transitions :: "statement list \<Rightarrow> MapState \<Rightarrow> (MapState \<times> MapState) list" where
  "transitions [] st = []"
| "transitions (x # xs) st = (st, exec x st) # transitions xs (exec x st)"

subsection \<open>Markers\<close>

text \<open>
  Each marker effect gives the state after it, the markers it took off the map and the
  markers it put on the map. The \<open>forEach\<close> over the stations is the recursion of
  \<open>add_google_markers\<close> and \<open>add_leaflet_markers\<close>.
\<close>

fun add_google_markers :: "nat \<Rightarrow> StationData list \<Rightarrow> MapState \<Rightarrow> MapState" where
  "add_google_markers m [] st = st"
| "add_google_markers m (s # ss) st =
     add_google_markers m ss
       (st\<lparr>googleMarkersRef := googleMarkersRef st @
              [\<lparr>marker_id = next_object st, marker_map = Some m,
                marker_position = location s, marker_station = Some s\<rparr>],
           next_object := Suc (next_object st)\<rparr>)"

definition renderGoogleMarkers ::
  "StationData list \<Rightarrow> MapState \<Rightarrow> MapState \<times> Marker list \<times> Marker list" where
  "renderGoogleMarkers records st =
     (if apiKey st \<noteq> [] then
        (case googleMapRef st of
           None \<Rightarrow> (st, [], [])
         | Some m \<Rightarrow>
             (let removed = filter (\<lambda>x. marker_map x \<noteq> None) (googleMarkersRef st);
                  st' = add_google_markers m records (st\<lparr>googleMarkersRef := []\<rparr>)
              in (st', removed, googleMarkersRef st')))
      else (st, [], []))"

definition renderGoogleTempMarker ::
  "Location option \<Rightarrow> MapState \<Rightarrow> MapState \<times> Marker list \<times> Marker list" where
  "renderGoogleTempMarker sel st =
     (if apiKey st \<noteq> [] then
        (case googleMapRef st of
           None \<Rightarrow> (st, [], [])
         | Some m \<Rightarrow>
             (let removed = (case googleTempMarkerRef st of
                               None \<Rightarrow> []
                             | Some t \<Rightarrow> if marker_map t \<noteq> None then [t] else []);
                  st1 = (case googleTempMarkerRef st of
                           None \<Rightarrow> st
                         | Some t \<Rightarrow> st\<lparr>googleTempMarkerRef := Some (t\<lparr>marker_map := None\<rparr>)\<rparr>)
              in case sel of
                   None \<Rightarrow> (st1, removed, [])
                 | Some loc \<Rightarrow>
                     (let mk = \<lparr>marker_id = next_object st1, marker_map = Some m,
                                marker_position = loc, marker_station = None\<rparr>
                      in (st1\<lparr>googleTempMarkerRef := Some mk,
                              next_object := Suc (next_object st1)\<rparr>, removed, [mk]))))
      else (st, [], []))"

fun add_leaflet_markers :: "nat \<Rightarrow> StationData list \<Rightarrow> MapState \<Rightarrow> MapState" where
  "add_leaflet_markers m [] st = st"
| "add_leaflet_markers m (s # ss) st =
     add_leaflet_markers m ss
       (st\<lparr>leafletMarkersRef := leafletMarkersRef st @
              [\<lparr>marker_id = next_object st, marker_map = Some m,
                marker_position = location s, marker_station = Some s\<rparr>],
           next_object := Suc (next_object st)\<rparr>)"

definition renderLeafletMarkers ::
  "StationData list \<Rightarrow> MapState \<Rightarrow> MapState \<times> Marker list \<times> Marker list" where
  "renderLeafletMarkers records st =
     (if apiKey st = [] \<and> window_L st then
        (case leafletMapRef st of
           None \<Rightarrow> (st, [], [])
         | Some m \<Rightarrow>
             (let removed = filter (\<lambda>x. marker_map x = Some m) (leafletMarkersRef st);
                  st' = add_leaflet_markers m records (st\<lparr>leafletMarkersRef := []\<rparr>)
              in (st', removed, leafletMarkersRef st')))
      else (st, [], []))"

definition renderLeafletTempMarker ::
  "Location option \<Rightarrow> MapState \<Rightarrow> MapState \<times> Marker list \<times> Marker list" where
  "renderLeafletTempMarker sel st =
     (if apiKey st = [] \<and> window_L st then
        (case leafletMapRef st of
           None \<Rightarrow> (st, [], [])
         | Some m \<Rightarrow>
             (let removed = (case leafletTempMarkerRef st of
                               None \<Rightarrow> []
                             | Some t \<Rightarrow> if marker_map t = Some m then [t] else []);
                  st1 = st\<lparr>leafletTempMarkerRef := None\<rparr>
              in case sel of
                   None \<Rightarrow> (st1, removed, [])
                 | Some loc \<Rightarrow>
                     (let mk = \<lparr>marker_id = next_object st1, marker_map = Some m,
                                marker_position = loc, marker_station = None\<rparr>
                      in (st1\<lparr>leafletTempMarkerRef := Some mk,
                              next_object := Suc (next_object st1)\<rparr>, removed, [mk]))))
      else (st, [], []))"

text \<open>
  What is on a map: the stations of the station markers attached to it, in order, and the
  position of the selection marker if it is attached to it.
\<close>

definition shown_stations :: "nat \<Rightarrow> Marker list \<Rightarrow> StationData option list" where
  "shown_stations m ms = map marker_station (filter (\<lambda>x. marker_map x = Some m) ms)"

definition shown_selection :: "nat \<Rightarrow> Marker option \<Rightarrow> Location option" where
  "shown_selection m t =
     (case t of
        None \<Rightarrow> None
      | Some mk \<Rightarrow> if marker_map mk = Some m then Some (marker_position mk) else None)"

subsection \<open>Events\<close>

text \<open>
  What happens to the component: the host passes another key; one of the effects runs, a
  marker effect with the stations or the selection of its render; the script element at
  the head of the pending ones loads, which defines the global and calls
  \<open>setGoogleScriptLoaded(true)\<close>. An effect runs after a render in which one of its
  dependencies changed; the events leave the order of the runs open.
\<close>

datatype map_event =
    SetApiKey jsstring
  | LoadScriptEffect
  | ScriptOnload
  | InitGoogleEffect
  | GoogleMarkersEffect "StationData list"
  | GoogleTempMarkerEffect "Location option"
  | InitLeafletEffect
  | LeafletMarkersEffect "StationData list"
  | LeafletTempMarkerEffect "Location option"

text \<open>
  An event first changes the props, the globals or, for a marker effect, the markers;
  then the statements of a script or init effect are executed.
\<close>

definition deliver :: "map_event \<Rightarrow> MapState \<Rightarrow> MapState" where
  "deliver e st =
     (case e of
        SetApiKey key \<Rightarrow> st\<lparr>apiKey := key\<rparr>
      | ScriptOnload \<Rightarrow>
          (if pending_scripts st = [] then st
           else st\<lparr>pending_scripts := tl (pending_scripts st), window_google_maps := True\<rparr>)
      | GoogleMarkersEffect records \<Rightarrow> fst (renderGoogleMarkers records st)
      | GoogleTempMarkerEffect sel \<Rightarrow> fst (renderGoogleTempMarker sel st)
      | LeafletMarkersEffect records \<Rightarrow> fst (renderLeafletMarkers records st)
      | LeafletTempMarkerEffect sel \<Rightarrow> fst (renderLeafletTempMarker sel st)
      | _ \<Rightarrow> st)"

definition statements :: "map_event \<Rightarrow> MapState \<Rightarrow> statement list" where
  "statements e st =
     (case e of
        LoadScriptEffect \<Rightarrow> loadGoogleScript st
      | ScriptOnload \<Rightarrow> (if pending_scripts st = [] then [] else [SetGoogleScriptLoaded])
      | InitGoogleEffect \<Rightarrow> initGoogleMap st
      | InitLeafletEffect \<Rightarrow> initLeafletMap st
      | _ \<Rightarrow> [])"

definition map_step :: "MapState \<Rightarrow> map_event \<Rightarrow> MapState" where
  "map_step st e = run (statements e st) (deliver e st)"

fun all_transitions :: "MapState \<Rightarrow> map_event list \<Rightarrow> (MapState \<times> MapState) list" where
  "all_transitions st [] = []"
| "all_transitions st (e # es) =
     (st, deliver e st) # transitions (statements e st) (deliver e st)
     @ all_transitions (map_step st e) es"

datatype phase = Uninitialized | CommercialActive | FallbackActive | BothActive

definition phase_of :: "MapState \<Rightarrow> phase" where
  "phase_of st =
     (case (googleMapRef st, leafletMapRef st) of
        (None, None) \<Rightarrow> Uninitialized
      | (Some g, None) \<Rightarrow> CommercialActive
      | (None, Some l) \<Rightarrow> FallbackActive
      | (Some g, Some l) \<Rightarrow> BothActive)"

definition direct_swap :: "phase \<Rightarrow> phase \<Rightarrow> bool" where
  "direct_swap a b \<longleftrightarrow>
     (a = CommercialActive \<and> b = FallbackActive) \<or> (a = FallbackActive \<and> b = CommercialActive)"

subsection \<open>Lifecycle predicates\<close>

text \<open>
  At most one of the two map refs is set; no Leaflet instance is left undestroyed while
  the Google ref is set; every undestroyed Leaflet instance is the one the Leaflet ref
  holds.
\<close>

definition refs_exclusive :: "MapState \<Rightarrow> bool" where
  "refs_exclusive st \<longleftrightarrow> googleMapRef st = None \<or> leafletMapRef st = None"

definition leaflet_gone_under_google :: "MapState \<Rightarrow> bool" where
  "leaflet_gone_under_google st \<longleftrightarrow>
     googleMapRef st = None \<or> Leaflet \<notin> fst ` set (live_maps st)"

definition leaflet_instances_referenced :: "MapState \<Rightarrow> bool" where
  "leaflet_instances_referenced st \<longleftrightarrow>
     (\<forall>m. (Leaflet, m) \<in> set (live_maps st) \<longrightarrow> leafletMapRef st = Some m)"

definition lifecycle_inv :: "MapState \<Rightarrow> bool" where
  "lifecycle_inv st \<longleftrightarrow> refs_exclusive st \<and> leaflet_instances_referenced st"

definition safe_transition :: "MapState \<times> MapState \<Rightarrow> bool" where
  "safe_transition t \<longleftrightarrow>
     phase_of (fst t) \<noteq> BothActive \<and> phase_of (snd t) \<noteq> BothActive \<and>
     \<not> direct_swap (phase_of (fst t)) (phase_of (snd t)) \<and>
     leaflet_gone_under_google (snd t)"

section \<open>Notions of the specification used in the statements\<close>

subsection \<open>Reading a quoted CSV field\<close>

text \<open>
  The spec's words for the string fields, "internal quotes doubled", as a reader of the
  text between the wrapping quotes: two quotes in a row stand for one, a quote alone is
  an error.
\<close>

fun undouble_quotes :: "jsstring \<Rightarrow> jsstring option" where
  "undouble_quotes [] = Some []"
| "undouble_quotes (c # cs) =
     (if c = 0x22 then
        (case cs of
           [] \<Rightarrow> None
         | d # ds \<Rightarrow>
             if d = 0x22 then
               (case undouble_quotes ds of None \<Rightarrow> None | Some s \<Rightarrow> Some (c # s))
             else None)
      else (case undouble_quotes cs of None \<Rightarrow> None | Some s \<Rightarrow> Some (c # s)))"

subsection \<open>The reconciler\<close>

text \<open>
  The spec's words for marker reconciliation: from the records already rendered and the
  records desired, the records to add a marker for and the records to remove the marker
  of, where two records are the same when their identities are.
\<close>

definition spec_reconcile ::
  "StationData list \<Rightarrow> StationData list \<Rightarrow> StationData list \<times> StationData list" where
  "spec_reconcile rendered desired =
     (filter (\<lambda>s. station_id s \<notin> station_id ` set rendered) desired,
      filter (\<lambda>s. station_id s \<notin> station_id ` set desired) rendered)"

subsection \<open>Uploads that do not overlap\<close>

text \<open>
  A run of the form in which every upload finds no reader still loading, and the bound
  such a run keeps: images and readers together are at most four.
\<close>

fun uploads_apart :: "FormState \<Rightarrow> form_event list \<Rightarrow> bool" where
  "uploads_apart f [] = True"
| "uploads_apart f (e # es) =
     ((case e of ImageUpload files \<Rightarrow> loading f = [] | _ \<Rightarrow> True) \<and>
      uploads_apart (form_step f e) es)"

definition within_limit :: "FormState \<Rightarrow> bool" where
  "within_limit f \<longleftrightarrow> length (form_images f) + length (loading f) \<le> 4"

section \<open>Example values\<close>

text \<open>
  Two stations and a printer of numbers for the examples below. The theorems hold for
  every printer; an example has to fix one.
\<close>

definition station_a :: StationData where
  "station_a =
     \<lparr>station_id = js ''a'', name = js ''A'', address = js ''B'',
      location = \<lparr>lat = 21.03, lng = 105.85\<rparr>, description = [], images = [],
      timestamp = 0\<rparr>"

definition station_b :: StationData where
  \<open>station_b =
     \<lparr>station_id = js ''b'', name = js ''Tank "A"'', address = js ''C'',
      location = \<lparr>lat = 21.03, lng = 105.85\<rparr>, description = js ''d'', images = [],
      timestamp = 1\<rparr>\<close>

definition print0 :: "real \<Rightarrow> jsstring" where
  "print0 r = js ''0''"

definition date0 :: "int \<Rightarrow> jsstring" where
  "date0 t = js ''1970-01-01T00:00:00.000Z''"

text \<open>
  Two runs of the map component. In \<open>to_commercial\<close> it is mounted without a key, the
  Leaflet map is initialised, then a key is configured, its script loads and the Google
  init effect runs. In \<open>to_fallback\<close> it is mounted with a key, the script loads, the
  Google map is initialised and the marker of one station is put on it, then the key is
  cleared and the effects of that render run: the Google marker effect, the Leaflet init
  effect, the Leaflet marker effect.
\<close>

definition to_commercial :: "map_event list" where
  "to_commercial =
     [InitLeafletEffect, SetApiKey (js ''K''), LoadScriptEffect, ScriptOnload, InitGoogleEffect]"

definition to_fallback :: "map_event list" where
  "to_fallback =
     [LoadScriptEffect, ScriptOnload, InitGoogleEffect, GoogleMarkersEffect [station_a],
      SetApiKey [], GoogleMarkersEffect [station_a], InitLeafletEffect,
      LeafletMarkersEffect [station_a]]"

text \<open>
  A form filled with the name A and the address B, without images; a state of the host
  after a click on the map at (21.03, 105.85); the same after a click on the settings
  button; a webhook URL.
\<close>

definition form_ab :: FormState where
  "form_ab = empty_form\<lparr>form_name := js ''A'', form_address := js ''B''\<rparr>"

definition clicked :: AppState where
  "clicked = app_step print0 (initial_state Map.empty) (MapClicked \<lparr>lat = 21.03, lng = 105.85\<rparr>)"

definition clicked_then_settings :: AppState where
  "clicked_then_settings = app_step print0 clicked SettingsClicked"

definition hook :: jsstring where
  "hook = js ''https://script.example/exec''"



text \<open>
  Two uploads of four files each, the second before any reader of the first has
  finished, then the eight readers finishing.
\<close>

definition batch1 :: "jsstring list" where
  "batch1 = [js ''data:1'', js ''data:2'', js ''data:3'', js ''data:4'']"

definition batch2 :: "jsstring list" where
  "batch2 = [js ''data:5'', js ''data:6'', js ''data:7'', js ''data:8'']"

definition overlapping_uploads :: "form_event list" where
  "overlapping_uploads =
     [ImageUpload (Some batch1), ImageUpload (Some batch2),
      LoadEnd 0, LoadEnd 0, LoadEnd 0, LoadEnd 0, LoadEnd 0, LoadEnd 0, LoadEnd 0, LoadEnd 0]"

text \<open>
  The map component with the Google map initialised, and with the Leaflet map
  initialised; each after its marker effect has run once for the one station
  \<open>station_a\<close>.
\<close>

definition google_active :: MapState where
  "google_active =
     foldl map_step (mounted (js ''K'') False True)
       [LoadScriptEffect, ScriptOnload, InitGoogleEffect]"

definition google_rendered :: MapState where
  "google_rendered = fst (renderGoogleMarkers [station_a] google_active)"

definition leaflet_active :: MapState where
  "leaflet_active = foldl map_step (mounted [] False True) [InitLeafletEffect]"

definition leaflet_rendered :: MapState where
  "leaflet_rendered = fst (renderLeafletMarkers [station_a] leaflet_active)"

section \<open>Properties of the JSON text\<close>

lemma unat_small: "k < 65536 \<Longrightarrow> unat (of_nat k :: 16 word) = k"
  by (simp add: unat_of_nat)

lemma unat_hex_digit: "n < 16 \<Longrightarrow> unat (hex_digit n) = (if n < 10 then 48 + n else 87 + n)"
proof -
  assume n: "n < 16"
  then have "48 + n < 65536" "87 + n < 65536" by simp_all
  then have "unat (of_nat (48 + n) :: 16 word) = 48 + n"
    "unat (of_nat (87 + n) :: 16 word) = 87 + n"
    by (simp_all only: unat_small)
  then show ?thesis
    unfolding hex_digit_def by (simp only: if_distrib [of unat] split: if_splits)
qed

lemma hex_value_hex_digit: "n < 16 \<Longrightarrow> hex_value (hex_digit n) = Some n"
  by (simp add: hex_value_def word_le_nat_alt unat_hex_digit)

lemma hex_recompose:
  fixes n :: nat
  shows "((n div 4096 * 16 + n div 256 mod 16) * 16 + n div 16 mod 16) * 16 + n mod 16 = n"
proof -
  have a: "n div 4096 = n div 256 div 16" using div_mult2_eq [of n 256 16] by simp
  have b: "n div 256 = n div 16 div 16" using div_mult2_eq [of n 16 16] by simp
  have "n div 4096 * 16 + n div 256 mod 16 = n div 256"
    unfolding a by (rule div_mult_mod_eq)
  moreover have "n div 256 * 16 + n div 16 mod 16 = n div 16"
    unfolding b by (rule div_mult_mod_eq)
  moreover have "n div 16 * 16 + n mod 16 = n"
    by (rule div_mult_mod_eq)
  ultimately show ?thesis by simp
qed

text \<open>The four hexadecimal digits of an escape read back as the code unit.\<close>

lemma hex4_UnicodeEscape:
  "hex4 (hex_digit (unat c div 4096)) (hex_digit (unat c div 256 mod 16))
        (hex_digit (unat c div 16 mod 16)) (hex_digit (unat c mod 16)) = Some c"
proof -
  have "unat c < 65536" using unsigned_less [of c, where ?'a = nat] by simp
  then have "unat c div 4096 < 16" by simp
  then have v: "hex_value (hex_digit (unat c div 4096)) = Some (unat c div 4096)"
    "hex_value (hex_digit (unat c div 256 mod 16)) = Some (unat c div 256 mod 16)"
    "hex_value (hex_digit (unat c div 16 mod 16)) = Some (unat c div 16 mod 16)"
    "hex_value (hex_digit (unat c mod 16)) = Some (unat c mod 16)"
    by (simp_all add: hex_value_hex_digit)
  have "(of_nat (unat c) :: 16 word) = c" by simp
  then show ?thesis
    unfolding hex4_def v by (simp only: prod.case option.case hex_recompose)
qed

lemma string_chars_escape_unit:
  "JSON_string_chars (escape_unit c @ rest) =
     (case JSON_string_chars rest of None \<Rightarrow> None | Some (s, r) \<Rightarrow> Some (c # s, r))"
  by (auto simp: escape_unit_def UnicodeEscape_def single_escape_def hex4_UnicodeEscape
      split: option.splits)

lemma surrogate_literal:
  "is_surrogate c \<Longrightarrow> c \<noteq> 0x22 \<and> c \<noteq> 0x5C \<and> \<not> c < 0x20"
  by (auto simp: is_surrogate_def word_le_nat_alt word_less_nat_alt)

lemma string_chars_literal:
  "c \<noteq> 0x22 \<and> c \<noteq> 0x5C \<and> \<not> c < 0x20 \<Longrightarrow>
   JSON_string_chars (c # cs) =
     (case JSON_string_chars cs of None \<Rightarrow> None | Some (s, r) \<Rightarrow> Some (c # s, r))"
  by simp

text \<open>Reading what \<open>QuoteJSONString\<close> wrote gives the string back, whatever follows.\<close>

lemma string_chars_quote_units:
  "JSON_string_chars (quote_units s @ 0x22 # rest) = Some (s, rest)"
proof (induction s rule: quote_units.induct)
  case 1
  show ?case by simp
next
  case (2 c)
  show ?case by (simp add: string_chars_escape_unit)
next
  case (3 c d cs)
  show ?case
  proof (cases "is_leading_surrogate c \<and> is_trailing_surrogate d")
    case True
    then have sc: "is_surrogate c" and sd: "is_surrogate d"
      by (auto simp: is_surrogate_def is_leading_surrogate_def is_trailing_surrogate_def
          word_le_nat_alt)
    note lit = surrogate_literal [OF sc] surrogate_literal [OF sd]
    have q: "quote_units (c # d # cs) @ 0x22 # rest = c # d # (quote_units cs @ 0x22 # rest)"
      using True by simp
    show ?thesis
      unfolding q
      by (simp only: string_chars_literal [OF lit(1)] string_chars_literal [OF lit(2)]
          3(1) [OF True] option.case prod.case)
  next
    case False
    have q: "quote_units (c # d # cs) @ 0x22 # rest
               = escape_unit c @ (quote_units (d # cs) @ 0x22 # rest)"
      by (simp only: quote_units.simps False if_False append_assoc)
    show ?thesis
      unfolding q
      by (simp only: string_chars_escape_unit 3(2) [OF False] option.case prod.case)
  qed
qed

lemma length_stringify_config:
  "\<exists>k. length (JSON_stringify_config c) = Suc (Suc (Suc (Suc k)))"
  by (simp add: JSON_stringify_config_def js_def QuoteJSONString_def)

lemma parse_value_config:
  "parse_value (Suc (Suc (Suc (Suc k)))) (JSON_stringify_config c) =
     Some (JObject [(js ''googleMapsApiKey'', JString (googleMapsApiKey c)),
                    (js ''googleSheetScriptUrl'', JString (googleSheetScriptUrl c))], [])"
  by (simp add: JSON_stringify_config_def js_def QuoteJSONString_def skip_ws_def is_ws_def
      string_chars_quote_units)

lemma JSON_parse_config:
  "JSON_parse (JSON_stringify_config c) =
     Some (JObject [(js ''googleMapsApiKey'', JString (googleMapsApiKey c)),
                    (js ''googleSheetScriptUrl'', JString (googleSheetScriptUrl c))])"
proof -
  obtain k where "length (JSON_stringify_config c) = Suc (Suc (Suc (Suc k)))"
    using length_stringify_config by blast
  then show ?thesis
    by (simp add: JSON_parse_def parse_value_config skip_ws_def del: parse_value.simps)
qed

lemma as_AppConfig_parsed:
  "as_AppConfig (JObject [(js ''googleMapsApiKey'', JString a),
                          (js ''googleSheetScriptUrl'', JString b)])
     = Some \<lparr>googleMapsApiKey = a, googleSheetScriptUrl = b\<rparr>"
  by (simp add: as_AppConfig_def json_member_def js_def)

lemma keys_differ: "STORAGE_KEY_CONFIG \<noteq> STORAGE_KEY_DATA"
  by (simp add: STORAGE_KEY_CONFIG_def STORAGE_KEY_DATA_def js_def)

lemma stringify_config_nonempty: "JSON_stringify_config c \<noteq> []"
  by (simp add: JSON_stringify_config_def js_def)

lemma load_config_of_saved:
  assumes "localStorage st STORAGE_KEY_CONFIG = Some (JSON_stringify_config c)"
  shows "load_config st = Inr (st\<lparr>config := c\<rparr>)"
  using assms
  by (simp add: load_config_def stringify_config_nonempty JSON_parse_config
      as_AppConfig_parsed)

section \<open>Properties of the host application\<close>

lemma filter_remove_unique:
  "distinct (map f xs) \<Longrightarrow> x \<in> set xs \<Longrightarrow>
   \<exists>ys zs. xs = ys @ x # zs \<and> filter (\<lambda>s. f s \<noteq> f x) xs = ys @ zs"
proof (induction xs)
  case Nil
  then show ?case by simp
next
  case (Cons a xs)
  show ?case
  proof (cases "a = x")
    case True
    with Cons.prems have "f x \<notin> f ` set xs" by simp
    then have "\<forall>s\<in>set xs. f s \<noteq> f x" by (metis image_eqI)
    then have "filter (\<lambda>s. f s \<noteq> f x) xs = xs" by (simp add: filter_id_conv)
    with True have "a # xs = [] @ x # xs \<and> filter (\<lambda>s. f s \<noteq> f x) (a # xs) = [] @ xs"
      by simp
    then show ?thesis by blast
  next
    case False
    with Cons.prems have x: "x \<in> set xs" and d: "distinct (map f xs)" and ne: "f a \<noteq> f x"
      by auto
    from Cons.IH [OF d x] obtain ys zs
      where "xs = ys @ x # zs" "filter (\<lambda>s. f s \<noteq> f x) xs = ys @ zs"
      by blast
    with ne have "a # xs = (a # ys) @ x # zs \<and>
                  filter (\<lambda>s. f s \<noteq> f x) (a # xs) = (a # ys) @ zs"
      by simp
    then show ?thesis by blast
  qed
qed

text \<open>
  C4. In a list whose identities are unique, deleting by an identity that is present
  removes exactly the entry with that identity: the list is the entries before it
  followed by the entries after it, in their order, one entry shorter, and the storage
  holds that list.
\<close>

theorem deleteStation_removes_exactly_one:
  assumes "distinct (map station_id (stations st))"
    and "i \<in> set (map station_id (stations st))"
  shows "\<exists>before x after.
           stations st = before @ x # after \<and> station_id x = i \<and>
           stations (deleteStation num i st) = before @ after \<and>
           length (stations (deleteStation num i st)) + 1 = length (stations st) \<and>
           localStorage (deleteStation num i st) STORAGE_KEY_DATA =
             Some (JSON_stringify_stations num (before @ after))"
proof -
  from assms(2) obtain x where x: "x \<in> set (stations st)" "station_id x = i" by auto
  from filter_remove_unique [OF assms(1) x(1)] obtain ys zs where
    s: "stations st = ys @ x # zs"
       "filter (\<lambda>s. station_id s \<noteq> station_id x) (stations st) = ys @ zs"
    by blast
  have "stations (deleteStation num i st) = ys @ zs"
    using s(2) x(2) by (simp add: deleteStation_def Let_def)
  moreover have "localStorage (deleteStation num i st) STORAGE_KEY_DATA =
             Some (JSON_stringify_stations num (ys @ zs))"
    using s(2) x(2) by (simp add: deleteStation_def Let_def)
  ultimately show ?thesis
    using s(1) x(2) by (intro exI [of _ ys] exI [of _ x] exI [of _ zs]) simp
qed

theorem deleteStation_removes_exactly_one_witness:
  "distinct (map station_id [station_a, station_b]) \<and>
   js ''a'' \<in> set (map station_id [station_a, station_b]) \<and>
   stations (deleteStation print0 (js ''a'')
      ((initial_state Map.empty)\<lparr>stations := [station_a, station_b]\<rparr>)) = [station_b]"
  using deleteStation_removes_exactly_one
    [of "(initial_state Map.empty)\<lparr>stations := [station_a, station_b]\<rparr>" "js ''a''" print0]
  by (simp add: station_a_def station_b_def js_def deleteStation_def Let_def)

lemma load_effect_config:
  assumes "load_config st = Inr (st\<lparr>config := c\<rparr>)"
  shows "load_effect as_stations st = Inr st' \<Longrightarrow> config st' = c"
    and "localStorage st STORAGE_KEY_DATA = None \<Longrightarrow>
         load_effect as_stations st = Inr (st\<lparr>config := c\<rparr>)"
  using assms by (auto simp: load_effect_def split: option.splits if_splits)

text \<open>
  C6. Saving a configuration of two strings and loading it in a fresh application gives
  the same two strings, code unit for code unit: the configuration half of the load
  effect sets exactly them, also when a station was saved in between, which writes the
  other key; the whole load effect, whenever it ends without an exception, ends with
  them, and it does end so when nothing is stored under the other key.
\<close>

theorem config_round_trip:
  "load_config (initial_state (localStorage
       (updateConfig \<lparr>googleMapsApiKey = x, googleSheetScriptUrl = y\<rparr> st)))
     = Inr ((initial_state (localStorage
              (updateConfig \<lparr>googleMapsApiKey = x, googleSheetScriptUrl = y\<rparr> st)))
              \<lparr>config := \<lparr>googleMapsApiKey = x, googleSheetScriptUrl = y\<rparr>\<rparr>)
   \<and> load_config (initial_state (localStorage
          (addStation num s (updateConfig \<lparr>googleMapsApiKey = x, googleSheetScriptUrl = y\<rparr> st))))
     = Inr ((initial_state (localStorage
          (addStation num s (updateConfig \<lparr>googleMapsApiKey = x, googleSheetScriptUrl = y\<rparr> st))))
              \<lparr>config := \<lparr>googleMapsApiKey = x, googleSheetScriptUrl = y\<rparr>\<rparr>)
   \<and> (load_effect as_stations (initial_state (localStorage
          (updateConfig \<lparr>googleMapsApiKey = x, googleSheetScriptUrl = y\<rparr> st))) = Inr st'
        \<longrightarrow> config st' = \<lparr>googleMapsApiKey = x, googleSheetScriptUrl = y\<rparr>)
   \<and> (localStorage st STORAGE_KEY_DATA = None
        \<longrightarrow> load_effect as_stations (initial_state (localStorage
              (updateConfig \<lparr>googleMapsApiKey = x, googleSheetScriptUrl = y\<rparr> st)))
            = Inr ((initial_state (localStorage
                (updateConfig \<lparr>googleMapsApiKey = x, googleSheetScriptUrl = y\<rparr> st)))
                \<lparr>config := \<lparr>googleMapsApiKey = x, googleSheetScriptUrl = y\<rparr>\<rparr>))"
proof (intro conjI impI)
  let ?c = "\<lparr>googleMapsApiKey = x, googleSheetScriptUrl = y\<rparr>"
  have a: "localStorage (initial_state (localStorage (updateConfig ?c st))) STORAGE_KEY_CONFIG
             = Some (JSON_stringify_config ?c)"
    by (simp add: initial_state_def updateConfig_def)
  show l: "load_config (initial_state (localStorage (updateConfig ?c st)))
     = Inr ((initial_state (localStorage (updateConfig ?c st)))\<lparr>config := ?c\<rparr>)"
    by (rule load_config_of_saved [OF a])
  have b: "localStorage (initial_state (localStorage (addStation num s (updateConfig ?c st))))
             STORAGE_KEY_CONFIG = Some (JSON_stringify_config ?c)"
    using keys_differ by (simp add: initial_state_def updateConfig_def addStation_def Let_def)
  show "load_config (initial_state (localStorage (addStation num s (updateConfig ?c st))))
     = Inr ((initial_state (localStorage (addStation num s (updateConfig ?c st))))
              \<lparr>config := ?c\<rparr>)"
    by (rule load_config_of_saved [OF b])
  show "config st' = ?c"
    if "load_effect as_stations (initial_state (localStorage (updateConfig ?c st))) = Inr st'"
    using load_effect_config(1) [OF l that] .
  show "load_effect as_stations (initial_state (localStorage (updateConfig ?c st)))
            = Inr ((initial_state (localStorage (updateConfig ?c st)))\<lparr>config := ?c\<rparr>)"
    if "localStorage st STORAGE_KEY_DATA = None"
  proof -
    from that keys_differ
    have "localStorage (initial_state (localStorage (updateConfig ?c st))) STORAGE_KEY_DATA = None"
      by (simp add: initial_state_def updateConfig_def)
    then show ?thesis by (rule load_effect_config(2) [OF l])
  qed
qed

theorem config_round_trip_witness:
  \<open>load_effect (\<lambda>v. None) (initial_state (localStorage
       (updateConfig \<lparr>googleMapsApiKey = [0x58, 0x22, 0x5C], googleSheetScriptUrl = [0x59, 0x0A, 0xD800]\<rparr>
          (initial_state Map.empty))))
     = Inr ((initial_state (localStorage
              (updateConfig \<lparr>googleMapsApiKey = [0x58, 0x22, 0x5C], googleSheetScriptUrl = [0x59, 0x0A, 0xD800]\<rparr>
                 (initial_state Map.empty))))
              \<lparr>config := \<lparr>googleMapsApiKey = [0x58, 0x22, 0x5C], googleSheetScriptUrl = [0x59, 0x0A, 0xD800]\<rparr>\<rparr>)
   \<and> localStorage (updateConfig \<lparr>googleMapsApiKey = [0x58, 0x22, 0x5C], googleSheetScriptUrl = [0x59, 0x0A, 0xD800]\<rparr>
          (initial_state Map.empty)) STORAGE_KEY_CONFIG
     = Some (js ''{"googleMapsApiKey":"X'' @ [0x5C, 0x22, 0x5C, 0x5C] @
             js ''","googleSheetScriptUrl":"Y'' @ [0x5C] @ js ''n'' @ [0x5C] @ js ''ud800"}'')\<close>
proof
  have "localStorage (initial_state Map.empty) STORAGE_KEY_DATA = None"
    by (simp add: initial_state_def)
  with config_round_trip [of "[0x58, 0x22, 0x5C]" "[0x59, 0x0A, 0xD800]" "initial_state Map.empty"]
  show "load_effect (\<lambda>v. None) (initial_state (localStorage
       (updateConfig \<lparr>googleMapsApiKey = [0x58, 0x22, 0x5C], googleSheetScriptUrl = [0x59, 0x0A, 0xD800]\<rparr>
          (initial_state Map.empty))))
     = Inr ((initial_state (localStorage
              (updateConfig \<lparr>googleMapsApiKey = [0x58, 0x22, 0x5C], googleSheetScriptUrl = [0x59, 0x0A, 0xD800]\<rparr>
                 (initial_state Map.empty))))
              \<lparr>config := \<lparr>googleMapsApiKey = [0x58, 0x22, 0x5C], googleSheetScriptUrl = [0x59, 0x0A, 0xD800]\<rparr>\<rparr>)"
    by blast
  show \<open>localStorage (updateConfig \<lparr>googleMapsApiKey = [0x58, 0x22, 0x5C], googleSheetScriptUrl = [0x59, 0x0A, 0xD800]\<rparr>
          (initial_state Map.empty)) STORAGE_KEY_CONFIG
     = Some (js ''{"googleMapsApiKey":"X'' @ [0x5C, 0x22, 0x5C, 0x5C] @
             js ''","googleSheetScriptUrl":"Y'' @ [0x5C] @ js ''n'' @ [0x5C] @ js ''ud800"}'')\<close>
    by (simp add: updateConfig_def JSON_stringify_config_def QuoteJSONString_def js_def
        escape_unit_def UnicodeEscape_def hex_digit_def is_surrogate_def
        is_leading_surrogate_def is_trailing_surrogate_def)
qed

text \<open>
  C7, as the claim has it, fails: after a click on the map and a click on the settings
  button the Selection is set and the sidebar shows the settings panel.
\<close>

theorem settings_hide_the_form:
  "selectedLocation clicked_then_settings = Some \<lparr>lat = 21.03, lng = 105.85\<rparr> \<and>
   renderSidebar clicked_then_settings = SettingsPanel (config clicked_then_settings)"
  by (simp add: clicked_then_settings_def clicked_def app_step_def handleMapClick_def
      initial_state_def renderSidebar_def)

text \<open>
  C7, as the code has it. With the Selection set, the stored view mode decides: in mode
  MAP the sidebar shows the station form bound to the selected coordinate, in mode
  SETTINGS the settings panel, in mode LIST the list.
\<close>

theorem renderSidebar_with_selection:
  assumes "selectedLocation st = Some loc"
  shows "(currentView st = MAP \<longrightarrow>
            renderSidebar st = StationFormPanel loc (googleSheetScriptUrl (config st))) \<and>
         (currentView st = SETTINGS \<longrightarrow> renderSidebar st = SettingsPanel (config st)) \<and>
         (currentView st = LIST \<longrightarrow> renderSidebar st = StationListPanel (stations st))"
  using assms by (simp add: renderSidebar_def)

theorem renderSidebar_with_selection_witness:
  "selectedLocation clicked = Some \<lparr>lat = 21.03, lng = 105.85\<rparr> \<and> currentView clicked = MAP \<and>
   renderSidebar clicked = StationFormPanel \<lparr>lat = 21.03, lng = 105.85\<rparr> []"
  using renderSidebar_with_selection [of clicked "\<lparr>lat = 21.03, lng = 105.85\<rparr>"]
  by (simp add: clicked_def app_step_def handleMapClick_def initial_state_def)

section \<open>Properties of the map component\<close>

subsection \<open>What the marker effects leave alone\<close>

lemma add_google_markers_fields:
  "apiKey (add_google_markers m rs st) = apiKey st"
  "googleMapRef (add_google_markers m rs st) = googleMapRef st"
  "leafletMapRef (add_google_markers m rs st) = leafletMapRef st"
  "live_maps (add_google_markers m rs st) = live_maps st"
  "next_object (add_google_markers m rs st) = next_object st + length rs"
  by (induction rs arbitrary: st) simp_all

lemma add_leaflet_markers_fields:
  "apiKey (add_leaflet_markers m rs st) = apiKey st"
  "googleMapRef (add_leaflet_markers m rs st) = googleMapRef st"
  "leafletMapRef (add_leaflet_markers m rs st) = leafletMapRef st"
  "live_maps (add_leaflet_markers m rs st) = live_maps st"
  "next_object (add_leaflet_markers m rs st) = next_object st + length rs"
  by (induction rs arbitrary: st) simp_all

lemma renderGoogleMarkers_maps:
  "googleMapRef (fst (renderGoogleMarkers L st)) = googleMapRef st"
  "leafletMapRef (fst (renderGoogleMarkers L st)) = leafletMapRef st"
  "live_maps (fst (renderGoogleMarkers L st)) = live_maps st"
  by (simp_all add: renderGoogleMarkers_def add_google_markers_fields Let_def
      split: option.splits)

lemma renderLeafletMarkers_maps:
  "googleMapRef (fst (renderLeafletMarkers L st)) = googleMapRef st"
  "leafletMapRef (fst (renderLeafletMarkers L st)) = leafletMapRef st"
  "live_maps (fst (renderLeafletMarkers L st)) = live_maps st"
  by (simp_all add: renderLeafletMarkers_def add_leaflet_markers_fields Let_def
      split: option.splits)

lemma renderGoogleTempMarker_maps:
  "googleMapRef (fst (renderGoogleTempMarker sel st)) = googleMapRef st"
  "leafletMapRef (fst (renderGoogleTempMarker sel st)) = leafletMapRef st"
  "live_maps (fst (renderGoogleTempMarker sel st)) = live_maps st"
  by (simp_all add: renderGoogleTempMarker_def Let_def split: option.splits)

lemma renderLeafletTempMarker_maps:
  "googleMapRef (fst (renderLeafletTempMarker sel st)) = googleMapRef st"
  "leafletMapRef (fst (renderLeafletTempMarker sel st)) = leafletMapRef st"
  "live_maps (fst (renderLeafletTempMarker sel st)) = live_maps st"
  by (simp_all add: renderLeafletTempMarker_def Let_def split: option.splits)

subsection \<open>Lifecycle\<close>

lemma inv_mounted: "lifecycle_inv (mounted key g l)"
  by (simp add: lifecycle_inv_def refs_exclusive_def leaflet_instances_referenced_def mounted_def)

lemma deliver_refs:
  "googleMapRef (deliver e st) = googleMapRef st"
  "leafletMapRef (deliver e st) = leafletMapRef st"
  "live_maps (deliver e st) = live_maps st"
  by (cases e; simp add: deliver_def renderGoogleMarkers_maps renderLeafletMarkers_maps
      renderGoogleTempMarker_maps renderLeafletTempMarker_maps)+

lemma inv_deliver: "lifecycle_inv st \<Longrightarrow> lifecycle_inv (deliver e st)"
  by (simp add: lifecycle_inv_def refs_exclusive_def leaflet_instances_referenced_def
      deliver_refs)

lemma safe_deliver: "lifecycle_inv st \<Longrightarrow> safe_transition (st, deliver e st)"
  by (auto simp: safe_transition_def lifecycle_inv_def refs_exclusive_def phase_of_def
      direct_swap_def leaflet_gone_under_google_def leaflet_instances_referenced_def
      deliver_refs split: option.splits)

lemma inv_initGoogle:
  "lifecycle_inv st \<Longrightarrow> lifecycle_inv (run (initGoogleMap st) st)"
  by (auto simp: lifecycle_inv_def refs_exclusive_def leaflet_instances_referenced_def
      initGoogleMap_def split: option.splits)

lemma inv_initLeaflet:
  "lifecycle_inv st \<Longrightarrow> lifecycle_inv (run (initLeafletMap st) st)"
  by (auto simp: lifecycle_inv_def refs_exclusive_def leaflet_instances_referenced_def
      initLeafletMap_def split: option.splits)

lemma inv_loadScript:
  "lifecycle_inv st \<Longrightarrow> lifecycle_inv (run (loadGoogleScript st) st)"
  by (auto simp: lifecycle_inv_def refs_exclusive_def leaflet_instances_referenced_def
      loadGoogleScript_def split: option.splits)

lemma inv_setLoaded:
  "lifecycle_inv st \<Longrightarrow> lifecycle_inv (exec SetGoogleScriptLoaded st)"
  by (simp add: lifecycle_inv_def refs_exclusive_def leaflet_instances_referenced_def)

lemma safe_initGoogle:
  "lifecycle_inv st \<Longrightarrow> t \<in> set (transitions (initGoogleMap st) st) \<Longrightarrow> safe_transition t"
  by (auto simp: lifecycle_inv_def refs_exclusive_def leaflet_instances_referenced_def
      initGoogleMap_def safe_transition_def phase_of_def direct_swap_def
      leaflet_gone_under_google_def split: option.splits if_splits)

lemma safe_initLeaflet:
  "lifecycle_inv st \<Longrightarrow> t \<in> set (transitions (initLeafletMap st) st) \<Longrightarrow> safe_transition t"
  by (auto simp: lifecycle_inv_def refs_exclusive_def leaflet_instances_referenced_def
      initLeafletMap_def safe_transition_def phase_of_def direct_swap_def
      leaflet_gone_under_google_def split: option.splits if_splits)

lemma safe_loadScript:
  "lifecycle_inv st \<Longrightarrow> t \<in> set (transitions (loadGoogleScript st) st) \<Longrightarrow> safe_transition t"
  by (auto simp: lifecycle_inv_def refs_exclusive_def leaflet_instances_referenced_def
      loadGoogleScript_def safe_transition_def phase_of_def direct_swap_def
      leaflet_gone_under_google_def split: option.splits if_splits)

lemma safe_setLoaded:
  "lifecycle_inv st \<Longrightarrow> safe_transition (st, exec SetGoogleScriptLoaded st)"
  by (auto simp: safe_transition_def lifecycle_inv_def refs_exclusive_def phase_of_def
      direct_swap_def leaflet_gone_under_google_def leaflet_instances_referenced_def
      split: option.splits)

text \<open>
  The statements of an event start from the state the event has delivered; for the run
  of a script or init effect that is the state before.
\<close>

lemma inv_statements:
  "lifecycle_inv st \<Longrightarrow> lifecycle_inv (run (statements e st) (deliver e st))"
proof (cases e)
  case LoadScriptEffect
  then show "lifecycle_inv st \<Longrightarrow> lifecycle_inv (run (statements e st) (deliver e st))"
    using inv_loadScript [of st] by (simp add: statements_def deliver_def)
next
  case ScriptOnload
  then show "lifecycle_inv st \<Longrightarrow> lifecycle_inv (run (statements e st) (deliver e st))"
    using inv_setLoaded [OF inv_deliver, of st e] inv_deliver [of st e]
    by (simp add: statements_def)
next
  case InitGoogleEffect
  then show "lifecycle_inv st \<Longrightarrow> lifecycle_inv (run (statements e st) (deliver e st))"
    using inv_initGoogle [of st] by (simp add: statements_def deliver_def)
next
  case InitLeafletEffect
  then show "lifecycle_inv st \<Longrightarrow> lifecycle_inv (run (statements e st) (deliver e st))"
    using inv_initLeaflet [of st] by (simp add: statements_def deliver_def)
qed (use inv_deliver [of st e] in \<open>simp_all add: statements_def\<close>)

lemma inv_step: "lifecycle_inv st \<Longrightarrow> lifecycle_inv (map_step st e)"
  unfolding map_step_def by (rule inv_statements)

lemma safe_statements:
  assumes "lifecycle_inv st" and "t \<in> set (transitions (statements e st) (deliver e st))"
  shows "safe_transition t"
proof (cases e)
  case LoadScriptEffect
  with assms(2) safe_loadScript [OF assms(1)] show ?thesis
    by (simp add: statements_def deliver_def)
next
  case ScriptOnload
  with assms(2) safe_setLoaded [OF inv_deliver [OF assms(1)], of e] show ?thesis
    by (simp add: statements_def split: if_splits)
next
  case InitGoogleEffect
  with assms(2) safe_initGoogle [OF assms(1)] show ?thesis
    by (simp add: statements_def deliver_def)
next
  case InitLeafletEffect
  with assms(2) safe_initLeaflet [OF assms(1)] show ?thesis
    by (simp add: statements_def deliver_def)
qed (use assms(2) in \<open>simp_all add: statements_def\<close>)

lemma safe_step:
  assumes "lifecycle_inv st"
    and "t \<in> set ((st, deliver e st) # transitions (statements e st) (deliver e st))"
  shows "safe_transition t"
proof (cases "t = (st, deliver e st)")
  case True
  then show ?thesis using safe_deliver [OF assms(1)] by simp
next
  case False
  with assms(2) have "t \<in> set (transitions (statements e st) (deliver e st))" by simp
  then show ?thesis by (rule safe_statements [OF assms(1)])
qed

lemma all_transitions_safe:
  "lifecycle_inv st \<Longrightarrow> t \<in> set (all_transitions st es) \<Longrightarrow> safe_transition t"
proof (induction es arbitrary: st)
  case Nil
  then show ?case by simp
next
  case (Cons e es)
  from Cons.prems(2) consider
    "t \<in> set ((st, deliver e st) # transitions (statements e st) (deliver e st))"
    | "t \<in> set (all_transitions (map_step st e) es)"
    by auto
  then show ?case
  proof cases
    case 1
    then show ?thesis by (rule safe_step [OF Cons.prems(1)])
  next
    case 2
    then show ?thesis by (rule Cons.IH [OF inv_step [OF Cons.prems(1)]])
  qed
qed

text \<open>
  C1, as the code has it. In every run of the component, from any key and any globals at
  mount, every single transition keeps at most one of the two map refs set, never goes
  from one backend's ref to the other's without the state in which both are null in
  between, and leaves no undestroyed Leaflet instance while the Google ref is set: the
  Google init effect calls \<open>remove()\<close> on the Leaflet map and clears its ref before it
  constructs the Google map. Nothing is said of the Google instance, which the Leaflet
  init effect only stops referring to.
\<close>

theorem backends_never_both_referenced:
  "\<forall>t \<in> set (all_transitions (mounted key g l) es).
     phase_of (fst t) \<noteq> BothActive \<and> phase_of (snd t) \<noteq> BothActive \<and>
     \<not> direct_swap (phase_of (fst t)) (phase_of (snd t)) \<and>
     (googleMapRef (snd t) = None \<or> Leaflet \<notin> fst ` set (live_maps (snd t)))"
  using all_transitions_safe [OF inv_mounted]
  by (auto simp: safe_transition_def leaflet_gone_under_google_def)

theorem backends_never_both_referenced_witness:
  "map (\<lambda>t. phase_of (snd t)) (all_transitions (mounted [] False True) to_commercial)
     = [Uninitialized, Uninitialized, Uninitialized, Uninitialized, FallbackActive,
        FallbackActive, FallbackActive, FallbackActive, FallbackActive, FallbackActive,
        FallbackActive, FallbackActive, Uninitialized, CommercialActive, CommercialActive]
   \<and> list_all (\<lambda>t. phase_of (fst t) \<noteq> BothActive \<and> phase_of (snd t) \<noteq> BothActive \<and>
          \<not> direct_swap (phase_of (fst t)) (phase_of (snd t)) \<and>
          (googleMapRef (snd t) = None \<or> Leaflet \<notin> fst ` set (live_maps (snd t))))
        (all_transitions (mounted [] False True) to_commercial)
   \<and> live_maps (foldl map_step (mounted [] False True) to_commercial) = [(Google, 1)]"
proof (intro conjI)
  show "map (\<lambda>t. phase_of (snd t)) (all_transitions (mounted [] False True) to_commercial)
     = [Uninitialized, Uninitialized, Uninitialized, Uninitialized, FallbackActive,
        FallbackActive, FallbackActive, FallbackActive, FallbackActive, FallbackActive,
        FallbackActive, FallbackActive, Uninitialized, CommercialActive, CommercialActive]"
    by (simp add: to_commercial_def mounted_def js_def map_step_def statements_def deliver_def
        initLeafletMap_def initGoogleMap_def loadGoogleScript_def phase_of_def)
  show "list_all (\<lambda>t. phase_of (fst t) \<noteq> BothActive \<and> phase_of (snd t) \<noteq> BothActive \<and>
          \<not> direct_swap (phase_of (fst t)) (phase_of (snd t)) \<and>
          (googleMapRef (snd t) = None \<or> Leaflet \<notin> fst ` set (live_maps (snd t))))
        (all_transitions (mounted [] False True) to_commercial)"
    using backends_never_both_referenced [of "[]" False True to_commercial]
    by (simp only: list_all_iff)
  show "live_maps (foldl map_step (mounted [] False True) to_commercial) = [(Google, 1)]"
    by (simp add: to_commercial_def mounted_def js_def map_step_def statements_def deliver_def
        initLeafletMap_def initGoogleMap_def loadGoogleScript_def)
qed

text \<open>
  C1, as the claim has it, fails on the way back. After the run \<open>to_fallback\<close> the
  Leaflet map 2 is constructed and referenced while the Google map 0, constructed on the
  same container, has had no destroying call: its ref was set to null, nothing else, and
  the station marker 1 is still attached to it.
\<close>

theorem google_instance_not_torn_down:
  "phase_of (foldl map_step (mounted (js ''K'') False True) to_fallback) = FallbackActive \<and>
   leafletMapRef (foldl map_step (mounted (js ''K'') False True) to_fallback) = Some 2 \<and>
   live_maps (foldl map_step (mounted (js ''K'') False True) to_fallback)
     = [(Google, 0), (Leaflet, 2)] \<and>
   map (\<lambda>x. (marker_id x, marker_map x))
       (googleMarkersRef (foldl map_step (mounted (js ''K'') False True) to_fallback))
     = [(1, Some 0)]"
  by (simp add: to_fallback_def mounted_def js_def map_step_def statements_def deliver_def
      initLeafletMap_def initGoogleMap_def loadGoogleScript_def phase_of_def
      renderGoogleMarkers_def renderLeafletMarkers_def Let_def)

subsection \<open>Marker effects\<close>

lemma add_google_markers_stations:
  "map marker_station (googleMarkersRef (add_google_markers m rs st))
     = map marker_station (googleMarkersRef st) @ map Some rs"
  by (induction rs arbitrary: st) simp_all

lemma add_google_markers_new:
  "x \<in> set (googleMarkersRef (add_google_markers m rs st)) \<Longrightarrow>
   x \<in> set (googleMarkersRef st) \<or> (marker_map x = Some m \<and> next_object st \<le> marker_id x)"
proof (induction rs arbitrary: st)
  case Nil
  then show ?case by simp
next
  case (Cons r rs)
  from Cons.IH [OF Cons.prems [simplified]] show ?case by auto
qed

lemma add_leaflet_markers_stations:
  "map marker_station (leafletMarkersRef (add_leaflet_markers m rs st))
     = map marker_station (leafletMarkersRef st) @ map Some rs"
  by (induction rs arbitrary: st) simp_all

lemma add_leaflet_markers_new:
  "x \<in> set (leafletMarkersRef (add_leaflet_markers m rs st)) \<Longrightarrow>
   x \<in> set (leafletMarkersRef st) \<or> (marker_map x = Some m \<and> next_object st \<le> marker_id x)"
proof (induction rs arbitrary: st)
  case Nil
  then show ?case by simp
next
  case (Cons r rs)
  from Cons.IH [OF Cons.prems [simplified]] show ?case by auto
qed

lemma all_on_map: "\<forall>x\<in>set ms. marker_map x = Some m \<Longrightarrow> filter (\<lambda>x. marker_map x = Some m) ms = ms"
  by (simp add: filter_id_conv)

lemma google_rebuild:
  assumes "apiKey st \<noteq> []" "googleMapRef st = Some m"
  shows "shown_stations m (googleMarkersRef (fst (renderGoogleMarkers L st))) = map Some L"
    and "fst (snd (renderGoogleMarkers L st)) = filter (\<lambda>x. marker_map x \<noteq> None) (googleMarkersRef st)"
    and "snd (snd (renderGoogleMarkers L st)) = googleMarkersRef (fst (renderGoogleMarkers L st))"
    and "length (snd (snd (renderGoogleMarkers L st))) = length L"
    and "\<forall>x\<in>set (snd (snd (renderGoogleMarkers L st))). next_object st \<le> marker_id x"
proof -
  let ?st' = "add_google_markers m L (st\<lparr>googleMarkersRef := []\<rparr>)"
  have r: "renderGoogleMarkers L st
             = (?st', filter (\<lambda>x. marker_map x \<noteq> None) (googleMarkersRef st),
                googleMarkersRef ?st')"
    using assms by (simp add: renderGoogleMarkers_def Let_def)
  have new: "\<forall>x\<in>set (googleMarkersRef ?st'). marker_map x = Some m \<and> next_object st \<le> marker_id x"
    using add_google_markers_new [of _ m L "st\<lparr>googleMarkersRef := []\<rparr>"] by auto
  have st: "map marker_station (googleMarkersRef ?st') = map Some L"
    using add_google_markers_stations [of m L "st\<lparr>googleMarkersRef := []\<rparr>"] by simp
  show "shown_stations m (googleMarkersRef (fst (renderGoogleMarkers L st))) = map Some L"
    using new st by (simp add: r shown_stations_def all_on_map)
  show "fst (snd (renderGoogleMarkers L st)) = filter (\<lambda>x. marker_map x \<noteq> None) (googleMarkersRef st)"
    by (simp add: r)
  show "snd (snd (renderGoogleMarkers L st)) = googleMarkersRef (fst (renderGoogleMarkers L st))"
    by (simp add: r)
  show "length (snd (snd (renderGoogleMarkers L st))) = length L"
    using arg_cong [OF st, of length] by (simp add: r)
  show "\<forall>x\<in>set (snd (snd (renderGoogleMarkers L st))). next_object st \<le> marker_id x"
    using new by (simp add: r)
qed

lemma leaflet_rebuild:
  assumes "apiKey st = []" "window_L st" "leafletMapRef st = Some m"
  shows "shown_stations m (leafletMarkersRef (fst (renderLeafletMarkers L st))) = map Some L"
    and "fst (snd (renderLeafletMarkers L st)) = filter (\<lambda>x. marker_map x = Some m) (leafletMarkersRef st)"
    and "snd (snd (renderLeafletMarkers L st)) = leafletMarkersRef (fst (renderLeafletMarkers L st))"
    and "length (snd (snd (renderLeafletMarkers L st))) = length L"
    and "\<forall>x\<in>set (snd (snd (renderLeafletMarkers L st))). next_object st \<le> marker_id x"
proof -
  let ?st' = "add_leaflet_markers m L (st\<lparr>leafletMarkersRef := []\<rparr>)"
  have r: "renderLeafletMarkers L st
             = (?st', filter (\<lambda>x. marker_map x = Some m) (leafletMarkersRef st),
                leafletMarkersRef ?st')"
    using assms by (simp add: renderLeafletMarkers_def Let_def)
  have new: "\<forall>x\<in>set (leafletMarkersRef ?st'). marker_map x = Some m \<and> next_object st \<le> marker_id x"
    using add_leaflet_markers_new [of _ m L "st\<lparr>leafletMarkersRef := []\<rparr>"] by auto
  have st: "map marker_station (leafletMarkersRef ?st') = map Some L"
    using add_leaflet_markers_stations [of m L "st\<lparr>leafletMarkersRef := []\<rparr>"] by simp
  show "shown_stations m (leafletMarkersRef (fst (renderLeafletMarkers L st))) = map Some L"
    using new st by (simp add: r shown_stations_def all_on_map)
  show "fst (snd (renderLeafletMarkers L st)) = filter (\<lambda>x. marker_map x = Some m) (leafletMarkersRef st)"
    by (simp add: r)
  show "snd (snd (renderLeafletMarkers L st)) = leafletMarkersRef (fst (renderLeafletMarkers L st))"
    by (simp add: r)
  show "length (snd (snd (renderLeafletMarkers L st))) = length L"
    using arg_cong [OF st, of length] by (simp add: r)
  show "\<forall>x\<in>set (snd (snd (renderLeafletMarkers L st))). next_object st \<le> marker_id x"
    using new by (simp add: r)
qed

lemma shown_length:
  "shown_stations m ms = map Some L \<Longrightarrow> length (filter (\<lambda>x. marker_map x = Some m) ms) = length L"
  unfolding shown_stations_def by (rule map_eq_imp_length_eq)

lemma all_attached: "\<forall>x\<in>set ms. marker_map x = Some m \<Longrightarrow> filter (\<lambda>x. marker_map x \<noteq> None) ms = ms"
  by (simp add: filter_id_conv)

lemma spec_reconcile_idempotent: "spec_reconcile L L = ([], [])"
  by (simp add: spec_reconcile_def)

text \<open>
  C2, as the claim has it, fails: with the one marker of \<open>station_a\<close> on the map, where
  the spec's reconciler has nothing to add and nothing to remove, the marker effect run
  again for the same list takes marker 1 off the map and puts the new marker 2 on it.
\<close>

theorem marker_sync_churns:
  "shown_stations 0 (googleMarkersRef google_rendered) = [Some station_a] \<and>
   spec_reconcile [station_a] [station_a] = ([], []) \<and>
   map marker_id (fst (snd (renderGoogleMarkers [station_a] google_rendered))) = [1] \<and>
   map marker_id (snd (snd (renderGoogleMarkers [station_a] google_rendered))) = [2]"
  by (simp add: google_rendered_def google_active_def mounted_def js_def map_step_def
      statements_def deliver_def initGoogleMap_def loadGoogleScript_def renderGoogleMarkers_def
      Let_def shown_stations_def spec_reconcile_def)

text \<open>
  C2, as the code has it. The marker effect rebuilds. Run with the backend active on
  markers that already show the list \<open>L\<close>, it leaves the map showing \<open>L\<close> again, one
  marker per record in the order of the list; it has taken every one of the old markers
  off the map and put as many new ones on it, objects that did not exist before. The
  churn is the length of the list twice, and none only for the empty list.
\<close>

theorem marker_sync_rebuilds:
  assumes "shown_stations m old = map Some L" and "\<forall>x\<in>set old. marker_map x = Some m"
  shows "(apiKey st \<noteq> [] \<and> googleMapRef st = Some m \<and> googleMarkersRef st = old \<longrightarrow>
            shown_stations m (googleMarkersRef (fst (renderGoogleMarkers L st))) = map Some L \<and>
            fst (snd (renderGoogleMarkers L st)) = old \<and>
            snd (snd (renderGoogleMarkers L st)) = googleMarkersRef (fst (renderGoogleMarkers L st)) \<and>
            length (fst (snd (renderGoogleMarkers L st))) = length L \<and>
            length (snd (snd (renderGoogleMarkers L st))) = length L \<and>
            (\<forall>x\<in>set (snd (snd (renderGoogleMarkers L st))). next_object st \<le> marker_id x))
       \<and> (apiKey st = [] \<and> window_L st \<and> leafletMapRef st = Some m \<and> leafletMarkersRef st = old \<longrightarrow>
            shown_stations m (leafletMarkersRef (fst (renderLeafletMarkers L st))) = map Some L \<and>
            fst (snd (renderLeafletMarkers L st)) = old \<and>
            snd (snd (renderLeafletMarkers L st)) = leafletMarkersRef (fst (renderLeafletMarkers L st)) \<and>
            length (fst (snd (renderLeafletMarkers L st))) = length L \<and>
            length (snd (snd (renderLeafletMarkers L st))) = length L \<and>
            (\<forall>x\<in>set (snd (snd (renderLeafletMarkers L st))). next_object st \<le> marker_id x))"
proof (intro conjI impI)
  have len: "length old = length L"
    using shown_length [OF assms(1)] all_on_map [OF assms(2)] by simp
  {
    assume g: "apiKey st \<noteq> [] \<and> googleMapRef st = Some m \<and> googleMarkersRef st = old"
    then have k: "apiKey st \<noteq> []" and r: "googleMapRef st = Some m" by simp_all
    note reb = google_rebuild [OF k r, of L]
    show "shown_stations m (googleMarkersRef (fst (renderGoogleMarkers L st))) = map Some L"
      by (rule reb(1))
    show rem: "fst (snd (renderGoogleMarkers L st)) = old"
      using reb(2) g all_attached [OF assms(2)] by simp
    show "snd (snd (renderGoogleMarkers L st)) = googleMarkersRef (fst (renderGoogleMarkers L st))"
      by (rule reb(3))
    show "length (fst (snd (renderGoogleMarkers L st))) = length L"
      using rem len by simp
    show "length (snd (snd (renderGoogleMarkers L st))) = length L"
      by (rule reb(4))
    show "\<forall>x\<in>set (snd (snd (renderGoogleMarkers L st))). next_object st \<le> marker_id x"
      by (rule reb(5))
  }
  {
    assume g: "apiKey st = [] \<and> window_L st \<and> leafletMapRef st = Some m \<and> leafletMarkersRef st = old"
    then have k: "apiKey st = []" and w: "window_L st" and r: "leafletMapRef st = Some m"
      by simp_all
    note reb = leaflet_rebuild [OF k w r, of L]
    show "shown_stations m (leafletMarkersRef (fst (renderLeafletMarkers L st))) = map Some L"
      by (rule reb(1))
    show rem: "fst (snd (renderLeafletMarkers L st)) = old"
      using reb(2) g all_on_map [OF assms(2)] by simp
    show "snd (snd (renderLeafletMarkers L st)) = leafletMarkersRef (fst (renderLeafletMarkers L st))"
      by (rule reb(3))
    show "length (fst (snd (renderLeafletMarkers L st))) = length L"
      using rem len by simp
    show "length (snd (snd (renderLeafletMarkers L st))) = length L"
      by (rule reb(4))
    show "\<forall>x\<in>set (snd (snd (renderLeafletMarkers L st))). next_object st \<le> marker_id x"
      by (rule reb(5))
  }
qed

lemma google_rendered_facts:
  "apiKey google_rendered \<noteq> []" "googleMapRef google_rendered = Some 0"
  "shown_stations 0 (googleMarkersRef google_rendered) = map Some [station_a]"
  "\<forall>x\<in>set (googleMarkersRef google_rendered). marker_map x = Some 0"
  by (simp_all add: google_rendered_def google_active_def mounted_def js_def map_step_def
      statements_def deliver_def initGoogleMap_def loadGoogleScript_def renderGoogleMarkers_def
      Let_def shown_stations_def)

lemma leaflet_rendered_facts:
  "apiKey leaflet_rendered = []" "window_L leaflet_rendered" "leafletMapRef leaflet_rendered = Some 0"
  "shown_stations 0 (leafletMarkersRef leaflet_rendered) = map Some [station_a]"
  "\<forall>x\<in>set (leafletMarkersRef leaflet_rendered). marker_map x = Some 0"
  by (simp_all add: leaflet_rendered_def leaflet_active_def mounted_def js_def map_step_def
      statements_def deliver_def initLeafletMap_def renderLeafletMarkers_def
      Let_def shown_stations_def)

theorem marker_sync_rebuilds_witness:
  "shown_stations 0 (googleMarkersRef google_rendered) = map Some [station_a] \<and>
   apiKey google_rendered \<noteq> [] \<and> googleMapRef google_rendered = Some 0 \<and>
   shown_stations 0 (googleMarkersRef (fst (renderGoogleMarkers [station_a] google_rendered)))
     = map Some [station_a] \<and>
   length (fst (snd (renderGoogleMarkers [station_a] google_rendered))) = length [station_a] \<and>
   length (snd (snd (renderGoogleMarkers [station_a] google_rendered))) = length [station_a] \<and>
   shown_stations 0 (leafletMarkersRef leaflet_rendered) = map Some [station_a] \<and>
   apiKey leaflet_rendered = [] \<and> window_L leaflet_rendered \<and>
   leafletMapRef leaflet_rendered = Some 0 \<and>
   shown_stations 0 (leafletMarkersRef (fst (renderLeafletMarkers [station_a] leaflet_rendered)))
     = map Some [station_a] \<and>
   length (fst (snd (renderLeafletMarkers [station_a] leaflet_rendered))) = length [station_a] \<and>
   length (snd (snd (renderLeafletMarkers [station_a] leaflet_rendered))) = length [station_a]"
proof -
  have "apiKey google_rendered \<noteq> [] \<and> googleMapRef google_rendered = Some 0 \<and>
        googleMarkersRef google_rendered = googleMarkersRef google_rendered"
    using google_rendered_facts(1,2) by simp
  from marker_sync_rebuilds [OF google_rendered_facts(3,4), of google_rendered,
      THEN conjunct1, THEN mp, OF this]
  have g: "shown_stations 0 (googleMarkersRef (fst (renderGoogleMarkers [station_a] google_rendered)))
             = map Some [station_a]"
    "length (fst (snd (renderGoogleMarkers [station_a] google_rendered))) = length [station_a]"
    "length (snd (snd (renderGoogleMarkers [station_a] google_rendered))) = length [station_a]"
    by blast+
  have "apiKey leaflet_rendered = [] \<and> window_L leaflet_rendered \<and>
        leafletMapRef leaflet_rendered = Some 0 \<and>
        leafletMarkersRef leaflet_rendered = leafletMarkersRef leaflet_rendered"
    using leaflet_rendered_facts(1,2,3) by simp
  from marker_sync_rebuilds [OF leaflet_rendered_facts(4,5), of leaflet_rendered,
      THEN conjunct2, THEN mp, OF this]
  have l: "shown_stations 0 (leafletMarkersRef (fst (renderLeafletMarkers [station_a] leaflet_rendered)))
             = map Some [station_a]"
    "length (fst (snd (renderLeafletMarkers [station_a] leaflet_rendered))) = length [station_a]"
    "length (snd (snd (renderLeafletMarkers [station_a] leaflet_rendered))) = length [station_a]"
    by blast+
  show ?thesis
    by (intro conjI g l google_rendered_facts(1,2,3) leaflet_rendered_facts(1,2,3,4))
qed

text \<open>
  The selection marker: after its effect, with the backend active, the map shows one
  highlighted marker at the selected coordinate, or none when nothing is selected.
\<close>

lemma selection_marker_follows_selection:
  "apiKey st \<noteq> [] \<and> googleMapRef st = Some m \<longrightarrow>
     shown_selection m (googleTempMarkerRef (fst (renderGoogleTempMarker sel st))) = sel"
  "apiKey st = [] \<and> window_L st \<and> leafletMapRef st = Some m \<longrightarrow>
     shown_selection m (leafletTempMarkerRef (fst (renderLeafletTempMarker sel st))) = sel"
  by (auto simp: renderGoogleTempMarker_def renderLeafletTempMarker_def shown_selection_def
      Let_def split: option.splits)

section \<open>Properties of the CSV export\<close>

lemma undouble_doubled:
  "undouble_quotes (concat (map (\<lambda>c. if c = 0x22 then [0x22, 0x22] else [c]) s)) = Some s"
  by (induction s) simp_all

text \<open>
  C5, as the claim has it, fails for the identity: it is a string field and the row
  holds it as it is, not wrapped in quotes.
\<close>

theorem csv_id_not_quoted:
  "hd (csv_row print0 date0 station_b) = js ''b'' \<and>
   hd (csv_row print0 date0 station_b) \<noteq> csv_quote (station_id station_b)"
  by (simp add: csv_row_def station_b_def js_def csv_quote_def)

text \<open>
  C5, as the code has it. The content is the header line and one line per record, joined
  by line feeds; a line is the identity as it is, the name and the address each wrapped
  in quotes with their quotes doubled, the latitude, the longitude, the description
  wrapped in the same way, and the ISO text of the timestamp, joined by commas. A wrapped
  field reads back as the string, and the name \<open>Tank "A"\<close> gives \<open>"Tank ""A"""\<close>.
\<close>

theorem csv_export_format:
  \<open>snd (exportToCSV num toISOString now records) =
     Array_join [0x0A]
       (js ''ID,Name,Address,Latitude,Longitude,Description,Timestamp'' #
        map (\<lambda>s. station_id s @ js '','' @ csv_quote (name s) @ js '','' @
                  csv_quote (address s) @ js '','' @ num (lat (location s)) @ js '','' @
                  num (lng (location s)) @ js '','' @ csv_quote (description s) @ js '','' @
                  toISOString (timestamp s)) records)
   \<and> (\<exists>body. csv_quote s = 0x22 # body @ [0x22] \<and> undouble_quotes body = Some s)
   \<and> csv_quote (js ''Tank "A"'') = js ''"Tank ""A"""''\<close>
proof (intro conjI)
  show "snd (exportToCSV num toISOString now records) =
     Array_join [0x0A]
       (js ''ID,Name,Address,Latitude,Longitude,Description,Timestamp'' #
        map (\<lambda>s. station_id s @ js '','' @ csv_quote (name s) @ js '','' @
                  csv_quote (address s) @ js '','' @ num (lat (location s)) @ js '','' @
                  num (lng (location s)) @ js '','' @ csv_quote (description s) @ js '','' @
                  toISOString (timestamp s)) records)"
    by (simp add: exportToCSV_def csvContent_def csv_headers_def csv_row_def js_def)
  show "\<exists>body. csv_quote s = 0x22 # body @ [0x22] \<and> undouble_quotes body = Some s"
    using undouble_doubled [of s] by (auto simp: csv_quote_def)
  show \<open>csv_quote (js ''Tank "A"'') = js ''"Tank ""A"""''\<close>
    by (simp add: csv_quote_def js_def)
qed

theorem csv_export_format_witness:
  \<open>snd (exportToCSV print0 date0 0 [station_b]) =
     js ''ID,Name,Address,Latitude,Longitude,Description,Timestamp'' @ [0x0A] @
     js ''b,"Tank ""A""","C",0,0,"d",1970-01-01T00:00:00.000Z''\<close>
  using csv_export_format [of print0 date0 0 "[station_b]" "[]"]
  by (simp add: station_b_def print0_def date0_def js_def csv_quote_def)

section \<open>Properties of the station form and of the outbound calls\<close>



lemma addStation_captured_same_render:
  "addStation_captured num (stations st) station st = addStation num station st"
  by (simp add: addStation_captured_def addStation_def)

lemma state_at_resume_without_url: "state_at_resume num [] during st = st"
  by (simp add: state_at_resume_def)







text \<open>
  C8. With a webhook URL configured, a request that fails is caught: the call settles
  with \<open>false\<close> after one request and one line on the console, the submission settles
  without an exception, and, whatever the host handles while the call is awaited, the
  states of the host and of the form after the submission are those after a request
  that succeeded, with the new record in front of the list of the submission, in the
  list and in the storage.
\<close>

theorem webhook_failure_is_swallowed:
  assumes "scriptUrl \<noteq> []"
  shows "saveToGoogleSheetScript num station scriptUrl (Rejected e)
           = (Fulfilled False,
              [FetchPost scriptUrl (sheet_payload num station),
               ConsoleError (js ''Failed to sync to sheet'') e])
    \<and> outcome (handleSubmit num uuid now (Rejected e) during loc scriptUrl f st) = Fulfilled ()
    \<and> app_after (handleSubmit num uuid now (Rejected e) during loc scriptUrl f st)
           = app_after (handleSubmit num uuid now (Fulfilled ()) during loc scriptUrl f st)
    \<and> form_after (handleSubmit num uuid now (Rejected e) during loc scriptUrl f st)
           = form_after (handleSubmit num uuid now (Fulfilled ()) during loc scriptUrl f st)
    \<and> stations (app_after (handleSubmit num uuid now (Rejected e) during loc scriptUrl f st))
           = newStation uuid now loc f # stations st
    \<and> localStorage (app_after (handleSubmit num uuid now (Rejected e) during loc scriptUrl f st))
           STORAGE_KEY_DATA
           = Some (JSON_stringify_stations num (newStation uuid now loc f # stations st))
    \<and> calls_made (handleSubmit num uuid now (Rejected e) during loc scriptUrl f st)
           = [FetchPost scriptUrl (sheet_payload num (newStation uuid now loc f)),
              ConsoleError (js ''Failed to sync to sheet'') e]"
  using assms
  by (simp add: saveToGoogleSheetScript_def sheet_try_def handleSubmit_def Let_def
      addStation_captured_def)

theorem webhook_failure_is_swallowed_witness:
  "hook \<noteq> [] \<and>
   outcome (handleSubmit print0 (js ''u1'') 0 (Rejected (Error (js ''Failed to fetch''))) []
              \<lparr>lat = 21.03, lng = 105.85\<rparr> hook form_ab clicked) = Fulfilled () \<and>
   map station_id (stations (app_after
       (handleSubmit print0 (js ''u1'') 0 (Rejected (Error (js ''Failed to fetch''))) []
              \<lparr>lat = 21.03, lng = 105.85\<rparr> hook form_ab clicked))) = [js ''u1''] \<and>
   app_after (handleSubmit print0 (js ''u1'') 0 (Rejected (Error (js ''Failed to fetch''))) []
              \<lparr>lat = 21.03, lng = 105.85\<rparr> hook form_ab clicked)
     = app_after (handleSubmit print0 (js ''u1'') 0 (Fulfilled ()) []
              \<lparr>lat = 21.03, lng = 105.85\<rparr> hook form_ab clicked)"
proof -
  have h: "hook \<noteq> []" by (simp add: hook_def js_def)
  note w = webhook_failure_is_swallowed [OF h, of print0 station_a
      "Error (js ''Failed to fetch'')" "js ''u1''" 0 "[]" "\<lparr>lat = 21.03, lng = 105.85\<rparr>"
      form_ab clicked]
  have e: "stations clicked = []"
    by (simp add: clicked_def app_step_def handleMapClick_def initial_state_def)
  from w have "outcome (handleSubmit print0 (js ''u1'') 0 (Rejected (Error (js ''Failed to fetch''))) []
              \<lparr>lat = 21.03, lng = 105.85\<rparr> hook form_ab clicked) = Fulfilled ()"
    by (rule conjunct2 [THEN conjunct1])
  moreover from w have "stations (app_after
       (handleSubmit print0 (js ''u1'') 0 (Rejected (Error (js ''Failed to fetch''))) []
              \<lparr>lat = 21.03, lng = 105.85\<rparr> hook form_ab clicked))
       = newStation (js ''u1'') 0 \<lparr>lat = 21.03, lng = 105.85\<rparr> form_ab # stations clicked"
    by blast
  then have "map station_id (stations (app_after
       (handleSubmit print0 (js ''u1'') 0 (Rejected (Error (js ''Failed to fetch''))) []
              \<lparr>lat = 21.03, lng = 105.85\<rparr> hook form_ab clicked))) = [js ''u1'']"
    by (simp add: e newStation_def)
  moreover from w have "app_after (handleSubmit print0 (js ''u1'') 0 (Rejected (Error (js ''Failed to fetch''))) []
              \<lparr>lat = 21.03, lng = 105.85\<rparr> hook form_ab clicked)
     = app_after (handleSubmit print0 (js ''u1'') 0 (Fulfilled ()) []
              \<lparr>lat = 21.03, lng = 105.85\<rparr> hook form_ab clicked)"
    by blast
  ultimately show ?thesis using h by blast
qed

text \<open>
  C10. For every list of images, every coordinate and every way the captioning request
  settles, \<open>generateStationDescription\<close> settles with a string, never with an exception;
  for the empty list it settles with the fixed sentence and has made no request, only
  written the error to the console.
\<close>

theorem generateStationDescription_total:
  "(\<exists>d. fst (generateStationDescription num base64Images loc response) = Fulfilled d)
   \<and> generateStationDescription num [] loc response
       = (Fulfilled (js ''Could not generate description via AI. Please try again.''),
          [ConsoleError (js ''Gemini Analysis Error:'')
             (Error (js ''No images provided for analysis.''))])"
proof
  show "\<exists>d. fst (generateStationDescription num base64Images loc response) = Fulfilled d"
    by (cases "description_try num base64Images loc response";
        cases "fst (description_try num base64Images loc response)")
      (auto simp: generateStationDescription_def)
  show "generateStationDescription num [] loc response
       = (Fulfilled (js ''Could not generate description via AI. Please try again.''),
          [ConsoleError (js ''Gemini Analysis Error:'')
             (Error (js ''No images provided for analysis.''))])"
    by (simp add: generateStationDescription_def description_try_def)
qed

theorem generateStationDescription_total_witness:
  "fst (generateStationDescription print0 [js ''data:image/jpeg;base64,QUJD''] \<lparr>lat = 21.03, lng = 105.85\<rparr>
      (Rejected (Error (js ''503'')))) = Fulfilled (js ''Could not generate description via AI. Please try again.'')
   \<and> fst (generateStationDescription print0 [js ''data:image/jpeg;base64,QUJD''] \<lparr>lat = 21.03, lng = 105.85\<rparr>
      (Fulfilled (Some (js ''A pump.'')))) = Fulfilled (js ''A pump.'')
   \<and> fst (generateStationDescription print0 [js ''data:image/jpeg;base64,QUJD''] \<lparr>lat = 21.03, lng = 105.85\<rparr>
      (Fulfilled None)) = Fulfilled (js ''No description generated.'')
   \<and> snd (generateStationDescription print0 [] \<lparr>lat = 21.03, lng = 105.85\<rparr>
      (Fulfilled (Some (js ''A pump.'')))) = [ConsoleError (js ''Gemini Analysis Error:'')
             (Error (js ''No images provided for analysis.''))]"
  using generateStationDescription_total [of print0 "[]" "\<lparr>lat = 21.03, lng = 105.85\<rparr>" "Fulfilled (Some (js ''A pump.''))"]
  by (simp add: generateStationDescription_def description_try_def js_def)

text \<open>
  C9. The form does not keep the limit when uploads overlap: \<open>handleImageUpload\<close> counts
  the images whose reader has finished, so a second upload made while the readers of the
  first are loading is given four slots again, and the form ends with eight images.
\<close>

theorem image_limit_exceeded:
  "form_images (foldl form_step empty_form overlapping_uploads) = batch1 @ batch2 \<and>
   length (form_images (foldl form_step empty_form overlapping_uploads)) = 8"
  by (simp add: overlapping_uploads_def batch1_def batch2_def form_step_def empty_form_def
      handleImageUpload_def onloadend_def Array_slice0_def Let_def)

text \<open>
  When every upload finds no reader loading, images and readers together stay within
  four, so the form never shows, and a record never carries, more than four images.
\<close>

lemma length_slice0: "0 \<le> e \<Longrightarrow> length (Array_slice0 e xs) \<le> nat e"
  by (simp add: Array_slice0_def)

lemma within_limit_upload:
  "within_limit f \<Longrightarrow> loading f = [] \<Longrightarrow> within_limit (handleImageUpload files f)"
proof (cases files)
  case None
  then show "within_limit f \<Longrightarrow> within_limit (handleImageUpload files f)"
    by (simp add: handleImageUpload_def)
next
  case (Some fs)
  assume w: "within_limit f" and l: "loading f = []"
  from w have n: "0 \<le> 4 - int (length (form_images f))" by (simp add: within_limit_def)
  then have "length (form_images f) + nat (4 - int (length (form_images f))) \<le> 4" by linarith
  with length_slice0 [OF n, of fs]
  have "length (form_images f)
          + length (Array_slice0 (4 - int (length (form_images f))) fs) \<le> 4"
    by linarith
  then show "within_limit (handleImageUpload files f)"
    using Some l by (simp add: handleImageUpload_def within_limit_def Let_def)
qed

lemma within_limit_onloadend: "within_limit f \<Longrightarrow> within_limit (onloadend k f)"
  by (auto simp: onloadend_def within_limit_def)

lemma length_removeImage: "length (form_images (removeImage i f)) \<le> length (form_images f)"
proof -
  have "length (filter (\<lambda>(img, j). j \<noteq> i) (zip (form_images f) [0..<length (form_images f)]))
          \<le> length (zip (form_images f) [0..<length (form_images f)])"
    by (rule length_filter_le)
  then show ?thesis by (simp add: removeImage_def)
qed

lemma within_limit_removeImage: "within_limit f \<Longrightarrow> within_limit (removeImage i f)"
  using length_removeImage [of i f] by (simp add: within_limit_def removeImage_def)

lemma uploads_apart_within_limit:
  "within_limit f \<Longrightarrow> uploads_apart f es \<Longrightarrow> within_limit (foldl form_step f es)"
proof (induction es arbitrary: f)
  case Nil
  then show ?case by simp
next
  case (Cons e es)
  have "within_limit (form_step f e)"
  proof (cases e)
    case (ImageUpload files)
    with Cons.prems show ?thesis by (simp add: form_step_def within_limit_upload)
  next
    case (LoadEnd k)
    with Cons.prems show ?thesis by (simp add: form_step_def within_limit_onloadend)
  next
    case (RemoveImage i)
    with Cons.prems show ?thesis by (simp add: form_step_def within_limit_removeImage)
  qed
  with Cons show ?case by simp
qed

lemma images_at_most_four_when_uploads_apart:
  "uploads_apart empty_form es \<Longrightarrow> length (form_images (foldl form_step empty_form es)) \<le> 4"
  using uploads_apart_within_limit [of empty_form es]
  by (simp add: within_limit_def empty_form_def)

end
